theory Spec2Isabelle
  imports
    Main
    "HOL-Library.Word"
    "HOL-Library.AList"
    "HOL-Library.Char_ord"
    "HOL-Library.List_Lexorder"
begin

section \<open>SlowFS: the device context of the I/O scheduler\<close>

text \<open>
  The development follows \<^verbatim>\<open>slowfs/scheduler/devicecontext.go\<close>,
  \<^verbatim>\<open>slowfs/scheduler/request.go\<close> and the file handlers \<^verbatim>\<open>Read\<close> and
  \<^verbatim>\<open>Write\<close> of \<^verbatim>\<open>slowfs/fuselayer/fuselayer.go\<close>.

  Modelling conventions.
  \<^item> An instant (\<^verbatim>\<open>time.Time\<close>) is an integer: nanoseconds since the zero value of
    \<^verbatim>\<open>time.Time\<close>. The instants of \<^verbatim>\<open>time.Time\<close> span hundreds of billions of
    years; that bound is not modelled.
  \<^item> A span (\<^verbatim>\<open>time.Duration\<close>) is Go's \<^verbatim>\<open>int64\<close> count of nanoseconds, a 64-bit
    word read as two's complement by \<open>sint\<close>: sums and products of spans wrap around,
    and \<^verbatim>\<open>Time.Sub\<close> saturates at the least and the greatest span.
  \<^item> The request kind is Go's \<^verbatim>\<open>int64\<close> with seven named constants, so that a
    value outside the enumeration can reach the \<^verbatim>\<open>default\<close> branches.
  \<^item> A nil \<^verbatim>\<open>*writeBackCache\<close> is \<open>None\<close>. Reading the dirty bytes through the nil
    pointer panics; a panic is the result \<open>None\<close> of \<open>computeTime\<close> and \<open>execute\<close>.
  \<^item> \<^verbatim>\<open>time.Now()\<close> is an explicit argument \<open>now\<close>; the log output is not modelled.
\<close>

subsection \<open>Units, strategies and the device configuration\<close>

type_synonym Time = int
type_synonym Duration = "64 word"

definition minDuration :: Duration where
  "minDuration = word_of_int (- (2 ^ 63))"

definition maxDuration :: Duration where
  "maxDuration = word_of_int (2 ^ 63 - 1)"

definition Second :: Duration where
  "Second = 1000000000"

text \<open>
  The methods of \<^verbatim>\<open>time.Time\<close> the scheduler calls. \<open>Sub\<close> follows the library: the
  difference is computed in \<^verbatim>\<open>int64\<close>; when adding it back does not give \<open>t\<close> the
  difference has overflowed and the result is the least or the greatest span.
\<close>

definition Add :: "Time \<Rightarrow> Duration \<Rightarrow> Time" where
  "Add t d = t + sint d"

definition After :: "Time \<Rightarrow> Time \<Rightarrow> bool" where
  "After t u \<longleftrightarrow> u < t"

definition Before :: "Time \<Rightarrow> Time \<Rightarrow> bool" where
  "Before t u \<longleftrightarrow> t < u"

definition Sub :: "Time \<Rightarrow> Time \<Rightarrow> Duration" where
  "Sub t u =
     (let d = word_of_int (t - u) in
      if Add u d = t then d
      else if Before t u then minDuration
      else maxDuration)"

definition Since :: "Time \<Rightarrow> Time \<Rightarrow> Duration" where
  "Since now t = Sub now t"

text \<open>
  The span nearest to an integer number of nanoseconds, and the integers that are the
  value of a span.
\<close>

definition saturate :: "int \<Rightarrow> Duration" where
  "saturate k =
     (if k < - (2 ^ 63) then minDuration
      else if 2 ^ 63 - 1 < k then maxDuration
      else word_of_int k)"

definition inDurationRange :: "int \<Rightarrow> bool" where
  "inDurationRange k \<longleftrightarrow> - (2 ^ 63) \<le> k \<and> k \<le> 2 ^ 63 - 1"

text \<open>
  Modelled from the spec: \<^verbatim>\<open>units.NumBytes\<close> is not part of the sources at hand. The
  data model describes a byte count as a non-negative integer measured in bytes.
\<close>

type_synonym NumBytes = nat

text \<open>
  Modelled from the spec: the package \<^verbatim>\<open>slowfs\<close> with \<^verbatim>\<open>DeviceConfig\<close> and the two
  strategy enumerations is not part of the sources at hand. The fields are the recognised
  options of the data model; the constructor names are those \<^verbatim>\<open>devicecontext.go\<close> uses.
\<close>

datatype FsyncStrategy = NoFsync | DumbFsync | WriteBackCachedFsync

datatype WriteStrategy = FastWrite | SimulateWrite

record DeviceConfig =
  Name :: string
  SeekWindow :: NumBytes
  SeekTime :: Duration
  ReadBytesPerSecond :: NumBytes
  WriteBytesPerSecond :: NumBytes
  AllocateBytesPerSecond :: NumBytes
  RequestReorderMaxDelay :: Duration
  MetadataOpTime :: Duration
  FsyncStrategy :: FsyncStrategy
  WriteStrategy :: WriteStrategy

text \<open>
  Modelled from the spec: the methods \<^verbatim>\<open>ReadTime\<close>, \<^verbatim>\<open>WriteTime\<close> and
  \<^verbatim>\<open>AllocateTime\<close> of \<^verbatim>\<open>DeviceConfig\<close> are missing. The spec gives the time of
  \<open>size\<close> bytes as \<open>size / bytesPerSecond\<close> seconds, and converts a computed duration to
  integer nanoseconds by rounding half to even. The nanoseconds are stored in a
  \<^verbatim>\<open>time.Duration\<close>, so a count beyond 63 bits wraps around. A bandwidth of zero is
  excluded by validation; HOL's division returns 0 there.
\<close>

definition roundHalfEven :: "nat \<Rightarrow> nat \<Rightarrow> nat" where
  "roundHalfEven n d =
     (let q = n div d; r = n mod d in
      if 2 * r < d then q
      else if d < 2 * r then q + 1
      else if even q then q else q + 1)"

definition computeTimeFromThroughput :: "NumBytes \<Rightarrow> NumBytes \<Rightarrow> Duration" where
  "computeTimeFromThroughput numBytes bytesPerSecond =
     of_nat (roundHalfEven (numBytes * 1000000000) bytesPerSecond)"

text \<open>Modelled from the spec: the missing \<^verbatim>\<open>ReadTime\<close>, \<open>size / readBytesPerSecond\<close>.\<close>

definition ReadTime :: "DeviceConfig \<Rightarrow> NumBytes \<Rightarrow> Duration" where
  "ReadTime cfg numBytes = computeTimeFromThroughput numBytes (ReadBytesPerSecond cfg)"

text \<open>Modelled from the spec: the missing \<^verbatim>\<open>WriteTime\<close>, \<open>size / writeBytesPerSecond\<close>.\<close>

definition WriteTime :: "DeviceConfig \<Rightarrow> NumBytes \<Rightarrow> Duration" where
  "WriteTime cfg numBytes = computeTimeFromThroughput numBytes (WriteBytesPerSecond cfg)"

text \<open>Modelled from the spec: the missing \<^verbatim>\<open>AllocateTime\<close>, \<open>size / allocateBytesPerSecond\<close>.\<close>

definition AllocateTime :: "DeviceConfig \<Rightarrow> NumBytes \<Rightarrow> Duration" where
  "AllocateTime cfg numBytes = computeTimeFromThroughput numBytes (AllocateBytesPerSecond cfg)"

text \<open>
  What validation guarantees of a configuration, as far as the properties below name it:
  the durations are not negative and the three bandwidths are positive.
\<close>

definition validConfig :: "DeviceConfig \<Rightarrow> bool" where
  "validConfig cfg \<longleftrightarrow>
     0 \<le> sint (SeekTime cfg) \<and> 0 \<le> sint (MetadataOpTime cfg) \<and>
     0 < ReadBytesPerSecond cfg \<and> 0 < WriteBytesPerSecond cfg \<and>
     0 < AllocateBytesPerSecond cfg"

subsection \<open>Requests (request.go)\<close>

type_synonym RequestType = int

definition ReadRequest :: RequestType where "ReadRequest = 0"
definition WriteRequest :: RequestType where "WriteRequest = 1"
definition OpenRequest :: RequestType where "OpenRequest = 2"
definition CloseRequest :: RequestType where "CloseRequest = 3"
definition FsyncRequest :: RequestType where "FsyncRequest = 4"
definition AllocateRequest :: RequestType where "AllocateRequest = 5"
definition MetadataRequest :: RequestType where "MetadataRequest = 6"

definition String :: "RequestType \<Rightarrow> string" where
  "String rt =
     (if rt = ReadRequest then ''READ''
      else if rt = WriteRequest then ''WRITE''
      else if rt = OpenRequest then ''OPEN''
      else if rt = CloseRequest then ''CLOSE''
      else if rt = FsyncRequest then ''FSYNC''
      else if rt = AllocateRequest then ''ALLOCATE''
      else if rt = MetadataRequest then ''METADATA''
      else ''UNKNOWN'')"

record Request =
  Type :: RequestType
  Timestamp :: Time
  Path :: string
  Start :: NumBytes
  Size :: NumBytes

subsection \<open>The write-back cache\<close>

text \<open>
  Modelled from the spec: the type \<^verbatim>\<open>writeBackCache\<close> and its methods are missing.
  The spec describes a mapping from path to dirty bytes with the operations
  \<^item> \<open>write(path, n)\<close>: \<open>dirtyBytes[path] += n\<close>, the entry being created on the first write
    (named \<open>cacheWrite\<close> below: \<open>write\<close> is a keyword of Isabelle);
  \<^item> \<open>unwrittenBytes(path)\<close>: the current dirty count;
  \<^item> \<open>writeBackFile(path)\<close>: set to zero;
  \<^item> \<open>writeBack(budget)\<close>: \<open>drainable = writeBytesPerSecond \<times> budget\<close>, handed out to the
    paths in sorted order, each path receiving \<open>min(dirtyBytes[path], remaining)\<close>;
  \<^item> \<open>close(path)\<close>: remove the entry unconditionally.

  The mapping is an association list; a path without an entry has no dirty bytes. The
  budget is in nanoseconds, so the drainable bytes are
  \<open>writeBytesPerSecond \<times> budget / 10\<^sup>9\<close>, rounded down.
\<close>

record writeBackCache =
  cacheConfig :: DeviceConfig
  dirtyBytes :: "(string \<times> NumBytes) list"

text \<open>Modelled from the spec: the missing \<^verbatim>\<open>newWriteBackCache\<close>; no path has an entry at the start.\<close>

definition newWriteBackCache :: "DeviceConfig \<Rightarrow> writeBackCache" where
  "newWriteBackCache config = \<lparr>cacheConfig = config, dirtyBytes = []\<rparr>"

text \<open>Modelled from the spec: the missing \<^verbatim>\<open>getUnwrittenBytes\<close>, the current dirty count of a path.\<close>

definition getUnwrittenBytes :: "writeBackCache \<Rightarrow> string \<Rightarrow> NumBytes" where
  "getUnwrittenBytes c path =
     (case map_of (dirtyBytes c) path of None \<Rightarrow> 0 | Some n \<Rightarrow> n)"

text \<open>Modelled from the spec: the missing \<^verbatim>\<open>write\<close>, \<open>dirtyBytes[path] += n\<close>.\<close>

definition cacheWrite :: "writeBackCache \<Rightarrow> string \<Rightarrow> NumBytes \<Rightarrow> writeBackCache" where
  "cacheWrite c path n =
     c\<lparr>dirtyBytes := AList.update path (getUnwrittenBytes c path + n) (dirtyBytes c)\<rparr>"

text \<open>Modelled from the spec: the missing \<^verbatim>\<open>writeBackFile\<close>, which sets the dirty count of the path to zero.\<close>

definition writeBackFile :: "writeBackCache \<Rightarrow> string \<Rightarrow> writeBackCache" where
  "writeBackFile c path = c\<lparr>dirtyBytes := AList.update path 0 (dirtyBytes c)\<rparr>"

text \<open>Modelled from the spec: the missing \<^verbatim>\<open>close\<close>, which removes the entry unconditionally.\<close>

definition close :: "writeBackCache \<Rightarrow> string \<Rightarrow> writeBackCache" where
  "close c path = c\<lparr>dirtyBytes := AList.delete path (dirtyBytes c)\<rparr>"

text \<open>
  Modelled from the spec: the missing \<^verbatim>\<open>writeBack\<close>. \<open>drain\<close> visits the paths in the
  order given and hands each \<open>min(dirtyBytes[path], remaining)\<close>; \<open>writeBack\<close> gives it
  the paths sorted and the drainable bytes of the budget.
\<close>

fun drain :: "NumBytes \<Rightarrow> string list \<Rightarrow> (string \<times> NumBytes) list \<Rightarrow> (string \<times> NumBytes) list" where
  "drain remaining [] m = m"
| "drain remaining (p # ps) m =
     (let dirty = (case map_of m p of None \<Rightarrow> 0 | Some n \<Rightarrow> n);
          written = min dirty remaining
      in drain (remaining - written) ps (AList.update p (dirty - written) m))"

definition drainable :: "DeviceConfig \<Rightarrow> Duration \<Rightarrow> NumBytes" where
  "drainable cfg budget =
     nat ((int (WriteBytesPerSecond cfg) * sint budget) div 1000000000)"

definition writeBack :: "writeBackCache \<Rightarrow> Duration \<Rightarrow> writeBackCache" where
  "writeBack c budget =
     c\<lparr>dirtyBytes :=
          drain (drainable (cacheConfig c) budget)
            (sort (remdups (map fst (dirtyBytes c)))) (dirtyBytes c)\<rparr>"

subsection \<open>The device context (devicecontext.go)\<close>

text \<open>
  The fields of \<^verbatim>\<open>deviceContext\<close> in the order of the source, without the logger. The
  four counters are \<^verbatim>\<open>uint64\<close>.
\<close>

record deviceContext =
  deviceConfig :: DeviceConfig
  firstUnseenByte :: NumBytes
  lastAccessedFile :: string
  busyUntil :: Time
  verboseLog :: bool
  windowReadBytes :: "64 word"
  windowWriteBytes :: "64 word"
  windowReads :: "64 word"
  windowWrites :: "64 word"
  lastLogTime :: Time
  writeBackCache :: "writeBackCache option"

definition newDeviceContext :: "DeviceConfig \<Rightarrow> Time \<Rightarrow> deviceContext" where
  "newDeviceContext config now =
     \<lparr>deviceConfig = config,
      firstUnseenByte = 0,
      lastAccessedFile = '''',
      busyUntil = 0,
      verboseLog = False,
      windowReadBytes = 0,
      windowWriteBytes = 0,
      windowReads = 0,
      windowWrites = 0,
      lastLogTime = now,
      writeBackCache =
        (if FsyncStrategy config = WriteBackCachedFsync
         then Some (newWriteBackCache config) else None)\<rparr>"

definition latestTime :: "Time \<Rightarrow> Time \<Rightarrow> Time" where
  "latestTime a b = (if After a b then a else b)"

text \<open>
  The subtraction \<open>req.Start - firstUnseenByte\<close> is reached only when
  \<open>firstUnseenByte \<le> req.Start\<close>, the disjunction being evaluated left to right, so the
  difference of naturals below is the one the source computes.
\<close>

definition computeSeekTime :: "deviceContext \<Rightarrow> Request \<Rightarrow> Duration" where
  "computeSeekTime dc req =
     (if lastAccessedFile dc \<noteq> Path req \<or> Start req < firstUnseenByte dc \<or>
         SeekWindow (deviceConfig dc) \<le> Start req - firstUnseenByte dc
      then SeekTime (deviceConfig dc)
      else 0)"

text \<open>
  The local \<open>requestDuration\<close> of \<open>computeTime\<close> after the \<^verbatim>\<open>switch\<close>. The request
  kinds are tested in the order of the source; the sums and the product are those of
  \<^verbatim>\<open>int64\<close>. The cached fsync strategy reads the dirty bytes through
  \<^verbatim>\<open>dc.writeBackCache\<close>, which panics on a nil cache.
\<close>

definition requestDuration :: "deviceContext \<Rightarrow> Request \<Rightarrow> Duration option" where
  "requestDuration dc req =
     (if Type req = MetadataRequest \<or> Type req = CloseRequest then
        Some (MetadataOpTime (deviceConfig dc))
      else if Type req = AllocateRequest then
        Some (computeSeekTime dc req + AllocateTime (deviceConfig dc) (Size req))
      else if Type req = ReadRequest then
        Some (computeSeekTime dc req + ReadTime (deviceConfig dc) (Size req))
      else if Type req = WriteRequest then
        (case WriteStrategy (deviceConfig dc) of
           FastWrite \<Rightarrow> Some 0
         | SimulateWrite \<Rightarrow>
             Some (computeSeekTime dc req + WriteTime (deviceConfig dc) (Size req)))
      else if Type req = FsyncRequest then
        (case FsyncStrategy (deviceConfig dc) of
           NoFsync \<Rightarrow> Some 0
         | DumbFsync \<Rightarrow> Some (SeekTime (deviceConfig dc) * 10)
         | WriteBackCachedFsync \<Rightarrow>
             (case writeBackCache dc of
                None \<Rightarrow> None
              | Some c \<Rightarrow>
                  Some (SeekTime (deviceConfig dc) +
                        WriteTime (deviceConfig dc) (getUnwrittenBytes c (Path req)))))
      else Some 0)"

text \<open>
  \<open>computeTime\<close>: the last line of the source,
  \<^verbatim>\<open>latestTime(dc.busyUntil, req.Timestamp).Add(requestDuration).Sub(req.Timestamp)\<close>.
\<close>

definition computeTime :: "deviceContext \<Rightarrow> Request \<Rightarrow> Duration option" where
  "computeTime dc req =
     map_option
       (\<lambda>d. Sub (Add (latestTime (busyUntil dc) (Timestamp req)) d) (Timestamp req))
       (requestDuration dc req)"

text \<open>
  \<open>execute\<close> in the order of the source: the statistics of the current window, the reset
  of the window after 30 seconds, the write-back during spare time, the new \<open>busyUntil\<close>,
  and the effect of the request kind.
\<close>

definition execute_countWindow :: "deviceContext \<Rightarrow> Request \<Rightarrow> deviceContext" where
  "execute_countWindow dc req =
     (if Type req = ReadRequest then
        dc\<lparr>windowReads := windowReads dc + 1,
           windowReadBytes := windowReadBytes dc + of_nat (Size req)\<rparr>
      else if Type req = WriteRequest then
        dc\<lparr>windowWrites := windowWrites dc + 1,
           windowWriteBytes := windowWriteBytes dc + of_nat (Size req)\<rparr>
      else dc)"

definition execute_resetWindow :: "deviceContext \<Rightarrow> Time \<Rightarrow> deviceContext" where
  "execute_resetWindow dc now =
     (if sint (30 * Second) < sint (Since now (lastLogTime dc)) then
        dc\<lparr>windowReads := 0, windowWrites := 0,
           windowReadBytes := 0, windowWriteBytes := 0,
           lastLogTime := now\<rparr>
      else dc)"

definition execute_spareTime :: "deviceContext \<Rightarrow> Duration \<Rightarrow> deviceContext" where
  "execute_spareTime dc spareTime =
     (if 0 < sint spareTime then
        (case writeBackCache dc of
           Some c \<Rightarrow> dc\<lparr>writeBackCache := Some (writeBack c spareTime)\<rparr>
         | None \<Rightarrow> dc)
      else dc)"

definition execute_kind :: "deviceContext \<Rightarrow> Request \<Rightarrow> deviceContext" where
  "execute_kind dc req =
     (if Type req = MetadataRequest \<or> Type req = AllocateRequest then dc
      else if Type req = CloseRequest then
        (let dc1 = (case writeBackCache dc of
                      Some c \<Rightarrow> dc\<lparr>writeBackCache := Some (close c (Path req))\<rparr>
                    | None \<Rightarrow> dc)
         in if lastAccessedFile dc1 = Path req
            then dc1\<lparr>lastAccessedFile := '''', firstUnseenByte := 0\<rparr>
            else dc1)
      else if Type req = ReadRequest then
        dc\<lparr>lastAccessedFile := Path req, firstUnseenByte := Start req + Size req\<rparr>
      else if Type req = WriteRequest then
        (let dc1 = (case WriteStrategy (deviceConfig dc) of
                      FastWrite \<Rightarrow> dc
                    | SimulateWrite \<Rightarrow>
                        dc\<lparr>lastAccessedFile := Path req,
                           firstUnseenByte := Start req + Size req\<rparr>)
         in case writeBackCache dc1 of
              Some c \<Rightarrow> dc1\<lparr>writeBackCache := Some (cacheWrite c (Path req) (Size req))\<rparr>
            | None \<Rightarrow> dc1)
      else if Type req = FsyncRequest then
        (case writeBackCache dc of
           Some c \<Rightarrow> dc\<lparr>writeBackCache := Some (writeBackFile c (Path req))\<rparr>
         | None \<Rightarrow> dc)
      else dc)"

definition execute :: "deviceContext \<Rightarrow> Time \<Rightarrow> Request \<Rightarrow> deviceContext option" where
  "execute dc now req =
     (let spareTime = Sub (Timestamp req) (busyUntil dc);
          dc1 = execute_countWindow dc req;
          dc2 = execute_resetWindow dc1 now;
          dc3 = execute_spareTime dc2 spareTime
      in case computeTime dc3 req of
           None \<Rightarrow> None
         | Some t \<Rightarrow> Some (execute_kind (dc3\<lparr>busyUntil := Add (Timestamp req) t\<rparr>) req))"

text \<open>A sequence of requests, each with the clock reading of its \<open>execute\<close>.\<close>

fun executeAll :: "deviceContext \<Rightarrow> (Time \<times> Request) list \<Rightarrow> deviceContext option" where
  "executeAll dc [] = Some dc"
| "executeAll dc ((now, req) # rest) =
     (case execute dc now req of
        None \<Rightarrow> None
      | Some dc' \<Rightarrow> executeAll dc' rest)"

text \<open>
  The device as \<open>execute\<close> sees it when it computes the new \<open>busyUntil\<close>, that is after
  its first three steps, and the cache of that device: the cache of \<open>dc\<close>, written back
  for the spare time \<open>req.Timestamp.Sub(busyUntil)\<close> when that is positive.
\<close>

definition prepared :: "deviceContext \<Rightarrow> Time \<Rightarrow> Request \<Rightarrow> deviceContext" where
  "prepared dc now req =
     execute_spareTime (execute_resetWindow (execute_countWindow dc req) now)
       (Sub (Timestamp req) (busyUntil dc))"

definition spareCache :: "deviceContext \<Rightarrow> Request \<Rightarrow> writeBackCache option" where
  "spareCache dc req =
     (case writeBackCache dc of
        None \<Rightarrow> None
      | Some c \<Rightarrow>
          Some (if busyUntil dc < Timestamp req
                then writeBack c (Sub (Timestamp req) (busyUntil dc)) else c))"

text \<open>
  The device the constructor builds has a write-back cache exactly when the fsync
  strategy is the cached one; \<open>execute\<close> keeps it so.
\<close>

definition cacheMatchesStrategy :: "deviceContext \<Rightarrow> bool" where
  "cacheMatchesStrategy dc \<longleftrightarrow>
     (writeBackCache dc \<noteq> None) = (FsyncStrategy (deviceConfig dc) = WriteBackCachedFsync)"

subsection \<open>The scheduler front end\<close>

text \<open>
  Modelled from the spec: \<^verbatim>\<open>Scheduler.Schedule\<close> is missing. The spec describes it as
  one exclusive lock around the device context, held for one \<open>computeTime\<close> followed by
  \<open>execute\<close>; the duration returned is the one \<open>computeTime\<close> gave. The lock is not
  modelled: the scheduler is its device context.
\<close>

definition Schedule ::
  "deviceContext \<Rightarrow> Time \<Rightarrow> Request \<Rightarrow> (Duration \<times> deviceContext) option" where
  "Schedule dc now req =
     (case computeTime dc req of
        None \<Rightarrow> None
      | Some duration \<Rightarrow>
          (case execute dc now req of
             None \<Rightarrow> None
           | Some dc' \<Rightarrow> Some (duration, dc')))"

subsection \<open>The file handlers Read and Write (fuselayer.go)\<close>

text \<open>
  The backing file is an input of the model: what \<^verbatim>\<open>sf.File.Read\<close> and
  \<^verbatim>\<open>r.Bytes\<close> answer for a read, and what \<^verbatim>\<open>sf.File.Write\<close> answers for a write.
  A handler returns the status, the size of the result it hands back (\<open>None\<close> for a nil
  result), the requests it passed to \<open>Schedule\<close>, in order, and the device context
  afterwards. \<open>start\<close> is the clock at entry, \<open>now\<close> the clock inside \<open>Schedule\<close>. The
  final \<^verbatim>\<open>time.Sleep\<close> changes neither the result nor the device and is left out.
\<close>

type_synonym Status = int

definition OK :: Status where
  "OK = 0"

record backingRead =
  readStatus :: Status
  readSize :: nat
  bytesStatus :: Status
  bytesSize :: nat

record backingWrite =
  writeStatus :: Status
  written :: nat

record handlerResult =
  status :: Status
  resultSize :: "nat option"
  scheduled :: "Request list"
  device :: deviceContext

definition slowFile_Read ::
  "deviceContext \<Rightarrow> string \<Rightarrow> Time \<Rightarrow> Time \<Rightarrow> backingRead \<Rightarrow> nat \<Rightarrow> handlerResult option" where
  "slowFile_Read dc path start now file off =
     (if readStatus file \<noteq> OK then
        Some \<lparr>status = readStatus file, resultSize = Some (readSize file),
              scheduled = [], device = dc\<rparr>
      else if bytesStatus file \<noteq> OK then
        Some \<lparr>status = bytesStatus file, resultSize = None, scheduled = [], device = dc\<rparr>
      else
        (let req = \<lparr>Type = ReadRequest, Timestamp = start, Path = path,
                    Start = off, Size = bytesSize file\<rparr>
         in case Schedule dc now req of
              None \<Rightarrow> None
            | Some (opTime, dc') \<Rightarrow>
                Some \<lparr>status = bytesStatus file, resultSize = Some (bytesSize file),
                      scheduled = [req], device = dc'\<rparr>))"

definition slowFile_Write ::
  "deviceContext \<Rightarrow> string \<Rightarrow> Time \<Rightarrow> Time \<Rightarrow> backingWrite \<Rightarrow> nat \<Rightarrow> handlerResult option" where
  "slowFile_Write dc path start now file off =
     (if writeStatus file \<noteq> OK then
        Some \<lparr>status = writeStatus file, resultSize = Some (written file),
              scheduled = [], device = dc\<rparr>
      else
        (let req = \<lparr>Type = WriteRequest, Timestamp = start, Path = path,
                    Start = off, Size = written file\<rparr>
         in case Schedule dc now req of
              None \<Rightarrow> None
            | Some (opTime, dc') \<Rightarrow>
                Some \<lparr>status = writeStatus file, resultSize = Some (written file),
                      scheduled = [req], device = dc'\<rparr>))"

subsection \<open>The per-kind duration as the specification words it\<close>

text \<open>
  The table of the specification over the integers, for comparison with
  \<open>requestDuration\<close>: METADATA and CLOSE cost \<open>metadataOpTime\<close>; ALLOCATE, READ and a
  simulated WRITE cost the seek time of the request plus \<open>size\<close> over the bandwidth; a
  fast WRITE costs nothing; FSYNC costs nothing, ten seek times, or one seek time plus the
  dirty bytes of the path over the write bandwidth; any other kind costs nothing.
  \<open>spec_transfer\<close> is the part of it that is bytes over bandwidth.
\<close>

definition spec_seekTime :: "deviceContext \<Rightarrow> Request \<Rightarrow> int" where
  "spec_seekTime dc req =
     (if Path req \<noteq> lastAccessedFile dc then sint (SeekTime (deviceConfig dc))
      else if Start req < firstUnseenByte dc then sint (SeekTime (deviceConfig dc))
      else if int (SeekWindow (deviceConfig dc)) \<le> int (Start req) - int (firstUnseenByte dc)
        then sint (SeekTime (deviceConfig dc))
      else 0)"

definition spec_transferTime :: "NumBytes \<Rightarrow> NumBytes \<Rightarrow> int" where
  "spec_transferTime numBytes bytesPerSecond =
     int (roundHalfEven (numBytes * 1000000000) bytesPerSecond)"

definition spec_dirtyBytesForPath :: "deviceContext \<Rightarrow> string \<Rightarrow> NumBytes" where
  "spec_dirtyBytesForPath dc path =
     (case writeBackCache dc of None \<Rightarrow> 0 | Some c \<Rightarrow> getUnwrittenBytes c path)"

definition spec_transfer :: "deviceContext \<Rightarrow> Request \<Rightarrow> int" where
  "spec_transfer dc req =
     (let cfg = deviceConfig dc in
      if Type req = AllocateRequest then
        spec_transferTime (Size req) (AllocateBytesPerSecond cfg)
      else if Type req = ReadRequest then
        spec_transferTime (Size req) (ReadBytesPerSecond cfg)
      else if Type req = WriteRequest \<and> WriteStrategy cfg = SimulateWrite then
        spec_transferTime (Size req) (WriteBytesPerSecond cfg)
      else if Type req = FsyncRequest \<and> FsyncStrategy cfg = WriteBackCachedFsync then
        spec_transferTime (spec_dirtyBytesForPath dc (Path req)) (WriteBytesPerSecond cfg)
      else 0)"

definition spec_requestDuration :: "deviceContext \<Rightarrow> Request \<Rightarrow> int" where
  "spec_requestDuration dc req =
     (let cfg = deviceConfig dc in
      if Type req = MetadataRequest \<or> Type req = CloseRequest then sint (MetadataOpTime cfg)
      else if Type req = AllocateRequest then
        spec_seekTime dc req + spec_transferTime (Size req) (AllocateBytesPerSecond cfg)
      else if Type req = ReadRequest then
        spec_seekTime dc req + spec_transferTime (Size req) (ReadBytesPerSecond cfg)
      else if Type req = WriteRequest then
        (case WriteStrategy cfg of
           FastWrite \<Rightarrow> 0
         | SimulateWrite \<Rightarrow>
             spec_seekTime dc req + spec_transferTime (Size req) (WriteBytesPerSecond cfg))
      else if Type req = FsyncRequest then
        (case FsyncStrategy cfg of
           NoFsync \<Rightarrow> 0
         | DumbFsync \<Rightarrow> 10 * sint (SeekTime cfg)
         | WriteBackCachedFsync \<Rightarrow>
             sint (SeekTime cfg) +
             spec_transferTime (spec_dirtyBytesForPath dc (Path req))
               (WriteBytesPerSecond cfg))
      else 0)"

text \<open>A request kind with a case of its own in \<open>computeTime\<close> and \<open>execute\<close>.\<close>

definition handledKind :: "RequestType \<Rightarrow> bool" where
  "handledKind rt \<longleftrightarrow>
     rt = ReadRequest \<or> rt = WriteRequest \<or> rt = CloseRequest \<or> rt = FsyncRequest \<or>
     rt = AllocateRequest \<or> rt = MetadataRequest"

subsection \<open>Concrete devices and requests\<close>

text \<open>
  The configuration of the specification's scenarios: a seek of 5 ms, a seek window of
  4096 bytes, 10 MB/s for reads and writes, 1 ms per metadata operation, the cached fsync
  strategy and simulated writes.
\<close>

definition scenarioConfig :: DeviceConfig where
  "scenarioConfig =
     \<lparr>Name = ''scenario'', SeekWindow = 4096, SeekTime = 5000000,
      ReadBytesPerSecond = 10000000, WriteBytesPerSecond = 10000000,
      AllocateBytesPerSecond = 1000000000, RequestReorderMaxDelay = 0,
      MetadataOpTime = 1000000, FsyncStrategy = WriteBackCachedFsync,
      WriteStrategy = SimulateWrite\<rparr>"

text \<open>
  A device built by \<open>newDeviceContext\<close> and brought to a given sequentiality state, busy
  time and cache content.
\<close>

definition deviceAt ::
  "DeviceConfig \<Rightarrow> string \<Rightarrow> NumBytes \<Rightarrow> Time \<Rightarrow> (string \<times> NumBytes) list \<Rightarrow> deviceContext" where
  "deviceAt cfg file unseen busy dirty =
     (newDeviceContext cfg 0)
       \<lparr>firstUnseenByte := unseen, lastAccessedFile := file, busyUntil := busy,
        writeBackCache :=
          (if FsyncStrategy cfg = WriteBackCachedFsync
           then Some \<lparr>cacheConfig = cfg, dirtyBytes = dirty\<rparr> else None)\<rparr>"

definition request :: "RequestType \<Rightarrow> Time \<Rightarrow> string \<Rightarrow> NumBytes \<Rightarrow> NumBytes \<Rightarrow> Request" where
  "request kind ts path off n =
     \<lparr>Type = kind, Timestamp = ts, Path = path, Start = off, Size = n\<rparr>"

section \<open>Properties\<close>

subsection \<open>Spans and instants\<close>

lemmas RequestType_defs =
  ReadRequest_def WriteRequest_def OpenRequest_def CloseRequest_def
  FsyncRequest_def AllocateRequest_def MetadataRequest_def

lemma sint_inDurationRange: "inDurationRange (sint (d :: Duration))"
  using sint_ge [of d] sint_lt [of d] by (simp add: inDurationRange_def)

lemma sint_word_of_int_range:
  "inDurationRange k \<Longrightarrow> sint (word_of_int k :: Duration) = k"
  by (simp add: inDurationRange_def sint_sbintrunc' signed_take_bit_int_eq_self)

lemma sint_minDuration: "sint minDuration = - (2 ^ 63)"
  by (simp add: minDuration_def)

lemma sint_maxDuration: "sint maxDuration = 2 ^ 63 - 1"
  by (simp add: maxDuration_def)

lemma sint_saturate:
  "sint (saturate k) =
     (if k < - (2 ^ 63) then - (2 ^ 63) else if 2 ^ 63 - 1 < k then 2 ^ 63 - 1 else k)"
  by (simp add: saturate_def sint_minDuration sint_maxDuration sint_word_of_int_range
      inDurationRange_def)

lemma sint_saturate_range: "inDurationRange k \<Longrightarrow> sint (saturate k) = k"
  by (simp add: sint_saturate inDurationRange_def)

lemma sint_saturate_nonneg: "0 \<le> k \<Longrightarrow> 0 \<le> sint (saturate k)"
  by (simp add: sint_saturate)

lemma saturate_0: "saturate 0 = 0"
  by (simp add: saturate_def)

lemma Sub_saturate: "Sub t u = saturate (t - u)"
proof -
  define d :: Duration where "d = word_of_int (t - u)"
  have sub: "Sub t u = (if Add u d = t then d else if Before t u then minDuration else maxDuration)"
    unfolding Sub_def Let_def d_def by (rule refl)
  have sat: "saturate (t - u) =
      (if t - u < - (2 ^ 63) then minDuration else if 2 ^ 63 - 1 < t - u then maxDuration else d)"
    unfolding saturate_def d_def by (rule refl)
  show ?thesis
  proof (cases "inDurationRange (t - u)")
    case True
    then have "sint d = t - u"
      unfolding d_def by (rule sint_word_of_int_range)
    then have "Add u d = t"
      by (simp add: Add_def)
    then show ?thesis
      using True unfolding sub sat by (simp add: inDurationRange_def)
  next
    case False
    then have "sint d \<noteq> t - u"
      using sint_inDurationRange [of d] by auto
    then have "Add u d \<noteq> t"
      by (simp add: Add_def)
    then show ?thesis
      using False unfolding sub sat by (auto simp: Before_def inDurationRange_def)
  qed
qed

lemma Sub_positive: "0 < sint (Sub t u) \<longleftrightarrow> u < t"
  by (simp add: Sub_saturate sint_saturate)

lemma latestTime_max: "latestTime a b = max a b"
  by (simp add: latestTime_def After_def max_def)

lemma sint_add_range:
  "inDurationRange (sint a + sint b) \<Longrightarrow> sint (a + b :: Duration) = sint a + sint b"
  by (simp add: sint_word_ariths inDurationRange_def signed_take_bit_int_eq_self)

lemma sint_times_10:
  "inDurationRange (10 * sint a) \<Longrightarrow> sint (a * 10 :: Duration) = 10 * sint a"
  by (simp add: sint_word_ariths inDurationRange_def signed_take_bit_int_eq_self
      mult.commute)

lemma sint_of_nat_range:
  "inDurationRange (int n) \<Longrightarrow> sint (of_nat n :: Duration) = int n"
  using sint_word_of_int_range [of "int n"] by simp

subsection \<open>The request duration and the delay\<close>

lemma kind_cases:
  obtains (Metadata) "Type req = MetadataRequest \<or> Type req = CloseRequest"
  | (Allocate) "Type req = AllocateRequest"
  | (Read) "Type req = ReadRequest"
  | (Write) "Type req = WriteRequest"
  | (Fsync) "Type req = FsyncRequest"
  | (Other) "\<not> handledKind (Type req)"
  unfolding handledKind_def by blast

lemma computeSeekTime_spec: "sint (computeSeekTime dc req) = spec_seekTime dc req"
  by (auto simp: computeSeekTime_def spec_seekTime_def)

lemma spec_seekTime_nonneg:
  "0 \<le> sint (SeekTime (deviceConfig dc)) \<Longrightarrow> 0 \<le> spec_seekTime dc req"
  by (simp add: spec_seekTime_def)

lemma spec_transferTime_nonneg: "0 \<le> spec_transferTime n b"
  by (simp add: spec_transferTime_def)

lemma sint_computeTimeFromThroughput:
  "inDurationRange (spec_transferTime n b) \<Longrightarrow>
   sint (computeTimeFromThroughput n b) = spec_transferTime n b"
  by (simp add: computeTimeFromThroughput_def spec_transferTime_def sint_of_nat_range)

lemma sint_seek_plus_transfer:
  assumes "inDurationRange (spec_seekTime dc req + spec_transferTime n b)"
    and "inDurationRange (spec_transferTime n b)"
  shows "sint (computeSeekTime dc req + computeTimeFromThroughput n b) =
    spec_seekTime dc req + spec_transferTime n b"
proof -
  have t: "sint (computeTimeFromThroughput n b) = spec_transferTime n b"
    using assms(2) by (rule sint_computeTimeFromThroughput)
  show ?thesis
    using assms(1) sint_add_range [of "computeSeekTime dc req" "computeTimeFromThroughput n b"]
    by (simp add: t computeSeekTime_spec)
qed

lemma requestDuration_defined:
  assumes "Type req \<noteq> FsyncRequest \<or> cacheMatchesStrategy dc"
  shows "\<exists>rd. requestDuration dc req = Some rd"
proof (cases req rule: kind_cases)
  case Write
  then show ?thesis
    by (cases "WriteStrategy (deviceConfig dc)")
      (simp_all add: requestDuration_def RequestType_defs)
next
  case Fsync
  then show ?thesis
    using assms
    by (cases "FsyncStrategy (deviceConfig dc)"; cases "writeBackCache dc")
      (simp_all add: requestDuration_def RequestType_defs cacheMatchesStrategy_def)
next
  case Other
  then show ?thesis
    by (simp add: requestDuration_def handledKind_def)
qed (auto simp: requestDuration_def RequestType_defs)

lemma requestDuration_unknown:
  "\<not> handledKind (Type req) \<Longrightarrow> requestDuration dc req = Some 0"
  by (simp add: requestDuration_def handledKind_def)

lemma requestDuration_spec:
  assumes "requestDuration dc req = Some rd"
    and "inDurationRange (spec_requestDuration dc req)"
    and "inDurationRange (spec_transfer dc req)"
  shows "sint rd = spec_requestDuration dc req"
proof (cases req rule: kind_cases)
  case Metadata
  then show ?thesis
    using assms(1) by (auto simp: requestDuration_def spec_requestDuration_def Let_def)
next
  case Allocate
  then show ?thesis
    using assms
    by (auto simp: requestDuration_def spec_requestDuration_def Let_def spec_transfer_def
        AllocateTime_def RequestType_defs sint_seek_plus_transfer)
next
  case Read
  then show ?thesis
    using assms
    by (auto simp: requestDuration_def spec_requestDuration_def Let_def spec_transfer_def
        ReadTime_def RequestType_defs sint_seek_plus_transfer)
next
  case Write
  then show ?thesis
    using assms
    by (cases "WriteStrategy (deviceConfig dc)")
      (auto simp: requestDuration_def spec_requestDuration_def Let_def spec_transfer_def
        WriteTime_def RequestType_defs sint_seek_plus_transfer)
next
  case Fsync
  show ?thesis
  proof (cases "FsyncStrategy (deviceConfig dc)")
    case NoFsync
    then show ?thesis
      using assms(1) Fsync
      by (auto simp: requestDuration_def spec_requestDuration_def Let_def RequestType_defs)
  next
    case DumbFsync
    then show ?thesis
      using assms(1,2) Fsync
      by (auto simp: requestDuration_def spec_requestDuration_def Let_def RequestType_defs
          sint_times_10)
  next
    case WriteBackCachedFsync
    with assms(1) Fsync obtain c where c: "writeBackCache dc = Some c"
      and rd: "rd = SeekTime (deviceConfig dc) +
         WriteTime (deviceConfig dc) (getUnwrittenBytes c (Path req))"
      by (cases "writeBackCache dc") (auto simp: requestDuration_def RequestType_defs)
    have t: "sint (WriteTime (deviceConfig dc) (getUnwrittenBytes c (Path req))) =
        spec_transferTime (getUnwrittenBytes c (Path req))
          (WriteBytesPerSecond (deviceConfig dc))"
      using assms(3) Fsync WriteBackCachedFsync c
      by (simp add: spec_transfer_def spec_dirtyBytesForPath_def WriteTime_def
          RequestType_defs sint_computeTimeFromThroughput)
    have s: "spec_requestDuration dc req = sint (SeekTime (deviceConfig dc)) +
        spec_transferTime (getUnwrittenBytes c (Path req))
          (WriteBytesPerSecond (deviceConfig dc))"
      using Fsync WriteBackCachedFsync c
      by (simp add: spec_requestDuration_def Let_def spec_dirtyBytesForPath_def
          RequestType_defs)
    show ?thesis
      unfolding rd s
      using assms(2) sint_add_range [of "SeekTime (deviceConfig dc)"
          "WriteTime (deviceConfig dc) (getUnwrittenBytes c (Path req))"]
      by (simp add: t s)
  qed
next
  case Other
  then show ?thesis
    using assms(1)
    by (auto simp: requestDuration_def spec_requestDuration_def Let_def handledKind_def)
qed

lemma spec_transfer_bounds:
  assumes "0 \<le> sint (SeekTime (deviceConfig dc))"
    and "0 \<le> sint (MetadataOpTime (deviceConfig dc))"
  shows "0 \<le> spec_transfer dc req" and "spec_transfer dc req \<le> spec_requestDuration dc req"
proof -
  show "0 \<le> spec_transfer dc req"
    by (simp add: spec_transfer_def Let_def spec_transferTime_nonneg)
  have s: "0 \<le> spec_seekTime dc req"
    using assms(1) by (rule spec_seekTime_nonneg)
  show "spec_transfer dc req \<le> spec_requestDuration dc req"
  proof (cases req rule: kind_cases)
    case Write
    then show ?thesis
      using s by (cases "WriteStrategy (deviceConfig dc)")
        (simp_all add: spec_transfer_def spec_requestDuration_def Let_def RequestType_defs)
  next
    case Fsync
    then show ?thesis
      using assms(1) by (cases "FsyncStrategy (deviceConfig dc)")
        (simp_all add: spec_transfer_def spec_requestDuration_def Let_def RequestType_defs)
  next
    case Other
    then show ?thesis
      by (simp add: spec_transfer_def spec_requestDuration_def Let_def handledKind_def)
  qed (use assms s in \<open>auto simp: spec_transfer_def spec_requestDuration_def Let_def
        RequestType_defs\<close>)
qed

lemma spec_requestDuration_nonneg:
  assumes "0 \<le> sint (SeekTime (deviceConfig dc))"
    and "0 \<le> sint (MetadataOpTime (deviceConfig dc))"
  shows "0 \<le> spec_requestDuration dc req"
  using spec_transfer_bounds [OF assms, of req] by simp

lemma requestDuration_nonneg:
  assumes "0 \<le> sint (SeekTime (deviceConfig dc))"
    and "0 \<le> sint (MetadataOpTime (deviceConfig dc))"
    and "spec_requestDuration dc req \<le> 2 ^ 63 - 1"
    and "requestDuration dc req = Some rd"
  shows "sint rd = spec_requestDuration dc req" and "0 \<le> sint rd"
proof -
  have r: "inDurationRange (spec_requestDuration dc req)"
    using assms(3) spec_requestDuration_nonneg [OF assms(1,2), of req]
    by (simp add: inDurationRange_def)
  have t: "inDurationRange (spec_transfer dc req)"
    using assms(3) spec_transfer_bounds [OF assms(1,2), of req]
    by (simp add: inDurationRange_def)
  show "sint rd = spec_requestDuration dc req"
    using assms(4) r t by (rule requestDuration_spec)
  then show "0 \<le> sint rd"
    using spec_requestDuration_nonneg [OF assms(1,2), of req] by simp
qed

lemma computeTime_saturate:
  "computeTime dc req =
     map_option (\<lambda>rd. saturate (max (busyUntil dc) (Timestamp req) + sint rd - Timestamp req))
       (requestDuration dc req)"
  by (simp add: computeTime_def Sub_saturate Add_def latestTime_max)

lemma computeTime_defined:
  assumes "Type req \<noteq> FsyncRequest \<or> cacheMatchesStrategy dc"
  shows "\<exists>d. computeTime dc req = Some d"
  using requestDuration_defined [OF assms] by (auto simp: computeTime_def)

subsection \<open>Writing back never adds dirty bytes\<close>

lemma roundHalfEven_bounds:
  "n div d \<le> roundHalfEven n d" "roundHalfEven n d \<le> n div d + 1"
  by (simp_all add: roundHalfEven_def Let_def)

lemma roundHalfEven_mono:
  assumes "n \<le> m"
  shows "roundHalfEven n d \<le> roundHalfEven m d"
proof (cases "n div d = m div d")
  case True
  have n: "n mod d = n - n div d * d"
    by (rule minus_div_mult_eq_mod [symmetric])
  have m: "m mod d = m - n div d * d"
    unfolding True by (rule minus_div_mult_eq_mod [symmetric])
  have "n mod d \<le> m mod d"
    unfolding n m using assms by (rule diff_le_mono)
  then show ?thesis
    using True by (auto simp: roundHalfEven_def Let_def)
next
  case False
  then have "n div d < m div d"
    using div_le_mono [OF assms, of d] by simp
  then have "roundHalfEven n d \<le> m div d"
    using roundHalfEven_bounds(2) [of n d] by simp
  then show ?thesis
    using roundHalfEven_bounds(1) [of m d] by simp
qed

lemma spec_transferTime_mono:
  "n \<le> m \<Longrightarrow> spec_transferTime n b \<le> spec_transferTime m b"
  by (simp add: spec_transferTime_def roundHalfEven_mono)

lemma drain_lookup_le:
  "(case map_of (drain r ps m) p of None \<Rightarrow> 0 | Some n \<Rightarrow> n) \<le>
   (case map_of m p of None \<Rightarrow> 0::nat | Some n \<Rightarrow> n)"
proof (induction ps arbitrary: r m)
  case Nil
  then show ?case by simp
next
  case (Cons q ps)
  define dirty where "dirty = (case map_of m q of None \<Rightarrow> 0::nat | Some n \<Rightarrow> n)"
  define m' where "m' = AList.update q (dirty - min dirty r) m"
  have step: "drain r (q # ps) m = drain (r - min dirty r) ps m'"
    by (simp add: Let_def dirty_def m'_def)
  have "(case map_of m' p of None \<Rightarrow> 0 | Some n \<Rightarrow> n) \<le>
      (case map_of m p of None \<Rightarrow> 0 | Some n \<Rightarrow> n)"
    by (cases "p = q") (simp_all add: m'_def AList.update_conv' dirty_def split: option.splits)
  then show ?case
    unfolding step using Cons.IH [of "r - min dirty r" m'] by (rule order_trans [rotated])
qed

lemma getUnwrittenBytes_writeBack_le:
  "getUnwrittenBytes (writeBack c budget) p \<le> getUnwrittenBytes c p"
  by (simp add: getUnwrittenBytes_def writeBack_def drain_lookup_le)

lemma spec_dirtyBytesForPath_spareCache:
  "(case spareCache dc req of None \<Rightarrow> 0 | Some c \<Rightarrow> getUnwrittenBytes c p) \<le>
   spec_dirtyBytesForPath dc p"
  by (simp add: spareCache_def spec_dirtyBytesForPath_def getUnwrittenBytes_writeBack_le
      split: option.splits)

subsection \<open>The steps of execute\<close>

lemma prepared_fields:
  "deviceConfig (prepared dc now req) = deviceConfig dc"
  "firstUnseenByte (prepared dc now req) = firstUnseenByte dc"
  "lastAccessedFile (prepared dc now req) = lastAccessedFile dc"
  "busyUntil (prepared dc now req) = busyUntil dc"
  "writeBackCache (prepared dc now req) = spareCache dc req"
  by (simp_all add: prepared_def execute_spareTime_def execute_resetWindow_def
      execute_countWindow_def spareCache_def Sub_positive split: option.splits)

lemma execute_prepared:
  "execute dc now req =
     (case computeTime (prepared dc now req) req of
        None \<Rightarrow> None
      | Some t \<Rightarrow>
          Some (execute_kind ((prepared dc now req)\<lparr>busyUntil := Add (Timestamp req) t\<rparr>) req))"
  unfolding execute_def prepared_def Let_def by (rule refl)

lemma prepared_matches:
  "cacheMatchesStrategy (prepared dc now req) = cacheMatchesStrategy dc"
  by (simp add: cacheMatchesStrategy_def prepared_fields spareCache_def split: option.splits)

lemma computeSeekTime_prepared:
  "computeSeekTime (prepared dc now req) req = computeSeekTime dc req"
  by (simp add: computeSeekTime_def prepared_fields)

lemma spec_seekTime_prepared:
  "spec_seekTime (prepared dc now req) req = spec_seekTime dc req"
  by (simp add: spec_seekTime_def prepared_fields)

lemma requestDuration_prepared:
  assumes "Type req \<noteq> FsyncRequest"
  shows "requestDuration (prepared dc now req) req = requestDuration dc req"
  using assms
  by (simp add: requestDuration_def computeSeekTime_prepared prepared_fields
      split: WriteStrategy.splits)

lemma spec_requestDuration_prepared:
  "spec_requestDuration (prepared dc now req) req \<le> spec_requestDuration dc req"
proof (cases "Type req = FsyncRequest \<and>
    FsyncStrategy (deviceConfig dc) = WriteBackCachedFsync")
  case True
  have "spec_dirtyBytesForPath (prepared dc now req) (Path req) \<le>
      spec_dirtyBytesForPath dc (Path req)"
    using spec_dirtyBytesForPath_spareCache [where dc = dc and req = req and p = "Path req"]
    by (simp add: spec_dirtyBytesForPath_def prepared_fields)
  then show ?thesis
    using True
    by (simp add: spec_requestDuration_def Let_def prepared_fields RequestType_defs
        spec_transferTime_mono)
next
  case False
  then have "spec_requestDuration (prepared dc now req) req = spec_requestDuration dc req"
    by (cases "FsyncStrategy (deviceConfig dc)")
      (auto simp: spec_requestDuration_def Let_def prepared_fields spec_seekTime_prepared
        RequestType_defs split: WriteStrategy.splits)
  then show ?thesis
    by simp
qed

lemma execute_kind_busyUntil: "busyUntil (execute_kind dc req) = busyUntil dc"
  by (simp add: execute_kind_def Let_def split: option.splits WriteStrategy.splits)

lemma execute_kind_deviceConfig: "deviceConfig (execute_kind dc req) = deviceConfig dc"
  by (simp add: execute_kind_def Let_def split: option.splits WriteStrategy.splits)

lemma execute_kind_unknown:
  "\<not> handledKind (Type req) \<Longrightarrow> execute_kind dc req = dc"
  by (simp add: execute_kind_def handledKind_def)

lemma execute_Some:
  assumes "execute dc now req = Some dc'"
  shows "\<exists>rd. requestDuration (prepared dc now req) req = Some rd \<and>
      busyUntil dc' = Timestamp req +
        sint (saturate (max (busyUntil dc) (Timestamp req) + sint rd - Timestamp req))"
    and "deviceConfig dc' = deviceConfig dc"
proof -
  from assms obtain t where t: "computeTime (prepared dc now req) req = Some t"
    and dc': "dc' = execute_kind ((prepared dc now req)\<lparr>busyUntil := Add (Timestamp req) t\<rparr>) req"
    by (auto simp: execute_prepared split: option.splits)
  from t obtain rd where rd: "requestDuration (prepared dc now req) req = Some rd"
    and t': "t = saturate (max (busyUntil dc) (Timestamp req) + sint rd - Timestamp req)"
    by (auto simp: computeTime_saturate prepared_fields)
  have "busyUntil dc' = Timestamp req + sint t"
    unfolding dc' by (simp add: execute_kind_busyUntil Add_def)
  with rd t' show "\<exists>rd. requestDuration (prepared dc now req) req = Some rd \<and>
      busyUntil dc' = Timestamp req +
        sint (saturate (max (busyUntil dc) (Timestamp req) + sint rd - Timestamp req))"
    by simp
  from dc' show "deviceConfig dc' = deviceConfig dc"
    by (simp add: execute_kind_deviceConfig prepared_fields)
qed

lemma execute_defined:
  assumes "Type req \<noteq> FsyncRequest \<or> cacheMatchesStrategy dc"
  shows "\<exists>dc'. execute dc now req = Some dc'"
proof -
  have "Type req \<noteq> FsyncRequest \<or> cacheMatchesStrategy (prepared dc now req)"
    using assms by (simp add: prepared_matches)
  from computeTime_defined [OF this] show ?thesis
    by (auto simp: execute_prepared)
qed

lemma newDeviceContext_matches: "cacheMatchesStrategy (newDeviceContext config now)"
  by (simp add: cacheMatchesStrategy_def newDeviceContext_def)

lemma execute_matches:
  assumes "cacheMatchesStrategy dc" and "execute dc now req = Some dc'"
  shows "cacheMatchesStrategy dc'"
proof -
  from assms(2) obtain t where
    dc': "dc' = execute_kind ((prepared dc now req)\<lparr>busyUntil := Add (Timestamp req) t\<rparr>) req"
    by (auto simp: execute_prepared split: option.splits)
  have "(writeBackCache dc' = None) = (writeBackCache dc = None)"
    unfolding dc'
    by (simp add: execute_kind_def Let_def prepared_fields spareCache_def
        split: option.splits WriteStrategy.splits)
  then show ?thesis
    using assms(1) execute_Some(2) [OF assms(2)] by (simp add: cacheMatchesStrategy_def)
qed

lemma deviceAt_matches: "cacheMatchesStrategy (deviceAt cfg file unseen busy dirty)"
  by (simp add: cacheMatchesStrategy_def deviceAt_def newDeviceContext_def)

lemmas concrete_defs =
  deviceAt_def newDeviceContext_def newWriteBackCache_def scenarioConfig_def request_def
  RequestType_defs

lemmas eval_defs =
  computeTime_def requestDuration_def computeSeekTime_def latestTime_def After_def
  Sub_saturate saturate_def Add_def Since_def minDuration_def maxDuration_def
  ReadTime_def WriteTime_def AllocateTime_def computeTimeFromThroughput_def
  roundHalfEven_def getUnwrittenBytes_def
  execute_def execute_countWindow_def execute_resetWindow_def execute_spareTime_def
  execute_kind_def cacheWrite_def close_def writeBackFile_def writeBack_def drainable_def
  Second_def Let_def

subsection \<open>The delay computed for a request\<close>

text \<open>
  C1, as stated, fails at the ends of the range of \<^verbatim>\<open>time.Duration\<close>. On a device busy
  until 300 years after the request, a METADATA request gets the greatest span,
  \<open>2\<^sup>6\<^sup>3 - 1\<close> ns, not \<open>busyUntil + 1 ms - timestamp\<close>: \<^verbatim>\<open>Time.Sub\<close> saturates. With a
  seek time of \<open>10\<^sup>1\<^sup>8\<close> ns the duration of a dumb FSYNC, ten seek times, wraps around
  in \<^verbatim>\<open>int64\<close>, and the delay is negative.
\<close>

theorem computeTime_formula_counterexample:
  "cacheMatchesStrategy (deviceAt scenarioConfig '''' 0 9460800000000000000 []) \<and>
   max (busyUntil (deviceAt scenarioConfig '''' 0 9460800000000000000 []))
       (Timestamp (request MetadataRequest 0 '''' 0 0)) +
     spec_requestDuration (deviceAt scenarioConfig '''' 0 9460800000000000000 [])
       (request MetadataRequest 0 '''' 0 0) -
     Timestamp (request MetadataRequest 0 '''' 0 0) = 9460800000001000000 \<and>
   map_option sint (computeTime (deviceAt scenarioConfig '''' 0 9460800000000000000 [])
     (request MetadataRequest 0 '''' 0 0)) = Some 9223372036854775807 \<and>
   cacheMatchesStrategy
     (deviceAt (scenarioConfig\<lparr>SeekTime := 1000000000000000000,
        FsyncStrategy := DumbFsync\<rparr>) '''' 0 0 []) \<and>
   max (busyUntil (deviceAt (scenarioConfig\<lparr>SeekTime := 1000000000000000000,
          FsyncStrategy := DumbFsync\<rparr>) '''' 0 0 []))
       (Timestamp (request FsyncRequest 0 ''/a'' 0 0)) +
     spec_requestDuration (deviceAt (scenarioConfig\<lparr>SeekTime := 1000000000000000000,
          FsyncStrategy := DumbFsync\<rparr>) '''' 0 0 [])
       (request FsyncRequest 0 ''/a'' 0 0) -
     Timestamp (request FsyncRequest 0 ''/a'' 0 0) = 10000000000000000000 \<and>
   map_option sint (computeTime (deviceAt (scenarioConfig\<lparr>SeekTime := 1000000000000000000,
        FsyncStrategy := DumbFsync\<rparr>) '''' 0 0 [])
     (request FsyncRequest 0 ''/a'' 0 0)) = Some (- 8446744073709551616)"
proof -
  have a: "max (busyUntil (deviceAt scenarioConfig '''' 0 9460800000000000000 []))
       (Timestamp (request MetadataRequest 0 '''' 0 0)) +
     spec_requestDuration (deviceAt scenarioConfig '''' 0 9460800000000000000 [])
       (request MetadataRequest 0 '''' 0 0) -
     Timestamp (request MetadataRequest 0 '''' 0 0) = 9460800000001000000"
    by (simp add: spec_requestDuration_def concrete_defs)
  have b: "map_option sint (computeTime (deviceAt scenarioConfig '''' 0 9460800000000000000 [])
     (request MetadataRequest 0 '''' 0 0)) = Some 9223372036854775807"
    by (simp add: computeTime_saturate requestDuration_def sint_saturate concrete_defs)
  have c: "max (busyUntil (deviceAt (scenarioConfig\<lparr>SeekTime := 1000000000000000000,
          FsyncStrategy := DumbFsync\<rparr>) '''' 0 0 []))
       (Timestamp (request FsyncRequest 0 ''/a'' 0 0)) +
     spec_requestDuration (deviceAt (scenarioConfig\<lparr>SeekTime := 1000000000000000000,
          FsyncStrategy := DumbFsync\<rparr>) '''' 0 0 [])
       (request FsyncRequest 0 ''/a'' 0 0) -
     Timestamp (request FsyncRequest 0 ''/a'' 0 0) = 10000000000000000000"
    by (simp add: spec_requestDuration_def concrete_defs)
  have d: "map_option sint (computeTime (deviceAt (scenarioConfig\<lparr>SeekTime := 1000000000000000000,
        FsyncStrategy := DumbFsync\<rparr>) '''' 0 0 [])
     (request FsyncRequest 0 ''/a'' 0 0)) = Some (- 8446744073709551616)"
    by (simp add: computeTime_saturate requestDuration_def sint_saturate concrete_defs)
  show ?thesis
    using a b c d by (simp only: deviceAt_matches simp_thms)
qed

text \<open>
  C1, amended. For every request on a device with a cache exactly under the cached fsync
  strategy, \<open>computeTime\<close> returns
  \<open>max(busyUntil, req.timestamp) + requestDuration - req.timestamp\<close> brought into the
  range of \<^verbatim>\<open>time.Duration\<close>, where \<open>requestDuration\<close> is the per-kind duration in
  \<^verbatim>\<open>int64\<close> arithmetic. \<open>requestDuration\<close> is the duration the specification gives for
  the kind when that duration and its transfer time lie in the range, and the delay is
  exactly \<open>max(busyUntil, req.timestamp) + requestDuration - req.timestamp\<close> when this
  value lies in the range. When \<open>busyUntil \<le> req.timestamp\<close> and \<open>requestDuration = 0\<close>
  the delay is zero.
\<close>

theorem computeTime_formula:
  assumes "cacheMatchesStrategy dc"
  shows "\<exists>rd. requestDuration dc req = Some rd \<and>
    computeTime dc req =
      Some (saturate (max (busyUntil dc) (Timestamp req) + sint rd - Timestamp req)) \<and>
    (inDurationRange (spec_requestDuration dc req) \<and> inDurationRange (spec_transfer dc req) \<longrightarrow>
       sint rd = spec_requestDuration dc req) \<and>
    (inDurationRange (max (busyUntil dc) (Timestamp req) + sint rd - Timestamp req) \<longrightarrow>
       map_option sint (computeTime dc req) =
         Some (max (busyUntil dc) (Timestamp req) + sint rd - Timestamp req)) \<and>
    (inDurationRange (spec_requestDuration dc req) \<and> inDurationRange (spec_transfer dc req) \<and>
     inDurationRange
       (max (busyUntil dc) (Timestamp req) + spec_requestDuration dc req - Timestamp req) \<longrightarrow>
       map_option sint (computeTime dc req) =
         Some (max (busyUntil dc) (Timestamp req) + spec_requestDuration dc req -
               Timestamp req)) \<and>
    (busyUntil dc \<le> Timestamp req \<and> rd = 0 \<longrightarrow> computeTime dc req = Some 0)"
proof -
  obtain rd where rd: "requestDuration dc req = Some rd"
    using requestDuration_defined [of req dc] assms by blast
  have c: "computeTime dc req =
      Some (saturate (max (busyUntil dc) (Timestamp req) + sint rd - Timestamp req))"
    by (simp add: computeTime_saturate rd)
  have s: "inDurationRange (spec_requestDuration dc req) \<and>
      inDurationRange (spec_transfer dc req) \<longrightarrow> sint rd = spec_requestDuration dc req"
    using requestDuration_spec [OF rd] by blast
  have e: "inDurationRange (max (busyUntil dc) (Timestamp req) + sint rd - Timestamp req) \<longrightarrow>
       map_option sint (computeTime dc req) =
         Some (max (busyUntil dc) (Timestamp req) + sint rd - Timestamp req)"
    by (simp add: c sint_saturate_range)
  have z: "busyUntil dc \<le> Timestamp req \<and> rd = 0 \<longrightarrow> computeTime dc req = Some 0"
    by (auto simp: c saturate_0 max_def)
  show ?thesis
    using rd c s e z by auto
qed

theorem computeTime_formula_witness:
  "cacheMatchesStrategy (deviceAt scenarioConfig ''/a'' 1000000 105000000 []) \<and>
   inDurationRange (spec_requestDuration (deviceAt scenarioConfig ''/a'' 1000000 105000000 [])
     (request ReadRequest 105000000 ''/a'' 1000000 1000000)) \<and>
   inDurationRange (spec_transfer (deviceAt scenarioConfig ''/a'' 1000000 105000000 [])
     (request ReadRequest 105000000 ''/a'' 1000000 1000000)) \<and>
   inDurationRange
     (max (busyUntil (deviceAt scenarioConfig ''/a'' 1000000 105000000 []))
        (Timestamp (request ReadRequest 105000000 ''/a'' 1000000 1000000)) +
      spec_requestDuration (deviceAt scenarioConfig ''/a'' 1000000 105000000 [])
        (request ReadRequest 105000000 ''/a'' 1000000 1000000) -
      Timestamp (request ReadRequest 105000000 ''/a'' 1000000 1000000)) \<and>
   map_option sint (computeTime (deviceAt scenarioConfig ''/a'' 1000000 105000000 [])
     (request ReadRequest 105000000 ''/a'' 1000000 1000000)) = Some 100000000 \<and>
   cacheMatchesStrategy (deviceAt (scenarioConfig\<lparr>WriteStrategy := FastWrite\<rparr>) ''/a'' 0 7 []) \<and>
   busyUntil (deviceAt (scenarioConfig\<lparr>WriteStrategy := FastWrite\<rparr>) ''/a'' 0 7 [])
     \<le> Timestamp (request WriteRequest 9 ''/c'' 0 512000) \<and>
   requestDuration (deviceAt (scenarioConfig\<lparr>WriteStrategy := FastWrite\<rparr>) ''/a'' 0 7 [])
     (request WriteRequest 9 ''/c'' 0 512000) = Some 0 \<and>
   computeTime (deviceAt (scenarioConfig\<lparr>WriteStrategy := FastWrite\<rparr>) ''/a'' 0 7 [])
     (request WriteRequest 9 ''/c'' 0 512000) = Some 0"
proof -
  let ?D = "deviceAt scenarioConfig ''/a'' 1000000 105000000 []"
  let ?R = "request ReadRequest 105000000 ''/a'' 1000000 1000000"
  let ?E = "deviceAt (scenarioConfig\<lparr>WriteStrategy := FastWrite\<rparr>) ''/a'' 0 7 []"
  let ?W = "request WriteRequest 9 ''/c'' 0 512000"
  have s: "spec_requestDuration ?D ?R = 100000000"
    and t: "spec_transfer ?D ?R = 100000000"
    and b: "busyUntil ?D = 105000000" "Timestamp ?R = 105000000"
    by (simp_all add: spec_requestDuration_def spec_transfer_def spec_seekTime_def
        spec_transferTime_def roundHalfEven_def concrete_defs)
  have r: "inDurationRange (spec_requestDuration ?D ?R)"
    "inDurationRange (spec_transfer ?D ?R)"
    "inDurationRange (max (busyUntil ?D) (Timestamp ?R) + spec_requestDuration ?D ?R -
       Timestamp ?R)"
    by (simp_all add: s t b inDurationRange_def)
  have b': "busyUntil ?E \<le> Timestamp ?W"
    and z: "requestDuration ?E ?W = Some 0"
    by (simp_all add: requestDuration_def concrete_defs)
  from computeTime_formula [OF deviceAt_matches, of scenarioConfig "''/a''" 1000000 105000000
      "[]" ?R] r
  have "map_option sint (computeTime ?D ?R) =
      Some (max (busyUntil ?D) (Timestamp ?R) + spec_requestDuration ?D ?R - Timestamp ?R)"
    by blast
  then have d: "map_option sint (computeTime ?D ?R) = Some 100000000"
    by (simp add: s b)
  from computeTime_formula [OF deviceAt_matches,
      of "scenarioConfig\<lparr>WriteStrategy := FastWrite\<rparr>" "''/a''" 0 7 "[]" ?W]
  obtain rd where "requestDuration ?E ?W = Some rd"
    and "busyUntil ?E \<le> Timestamp ?W \<and> rd = 0 \<longrightarrow> computeTime ?E ?W = Some 0"
    by blast
  with b' z have e: "computeTime ?E ?W = Some 0"
    by simp
  show ?thesis
    using r d b' z e by (simp only: deviceAt_matches simp_thms)
qed

text \<open>
  C2, as stated, fails: under a configuration with non-negative \<open>seekTime\<close> and
  \<open>metadataOpTime\<close> and positive bandwidths, a seek time of \<open>10\<^sup>1\<^sup>8\<close> ns and the dumb
  fsync strategy, the ten seek times of an FSYNC wrap around in \<^verbatim>\<open>int64\<close>, and
  \<open>computeTime\<close> and \<open>Schedule\<close> return a negative duration.
\<close>

theorem schedule_duration_negative_counterexample:
  "validConfig (deviceConfig (deviceAt (scenarioConfig\<lparr>SeekTime := 1000000000000000000,
      FsyncStrategy := DumbFsync\<rparr>) ''/a'' 4096 0 [])) \<and>
   cacheMatchesStrategy (deviceAt (scenarioConfig\<lparr>SeekTime := 1000000000000000000,
      FsyncStrategy := DumbFsync\<rparr>) ''/a'' 4096 0 []) \<and>
   map_option sint (computeTime (deviceAt (scenarioConfig\<lparr>SeekTime := 1000000000000000000,
      FsyncStrategy := DumbFsync\<rparr>) ''/a'' 4096 0 [])
     (request FsyncRequest 5 ''/a'' 0 0)) = Some (- 8446744073709551616) \<and>
   map_option (sint \<circ> fst) (Schedule (deviceAt (scenarioConfig\<lparr>SeekTime := 1000000000000000000,
      FsyncStrategy := DumbFsync\<rparr>) ''/a'' 4096 0 []) 5
     (request FsyncRequest 5 ''/a'' 0 0)) = Some (- 8446744073709551616)"
proof -
  let ?D = "deviceAt (scenarioConfig\<lparr>SeekTime := 1000000000000000000,
      FsyncStrategy := DumbFsync\<rparr>) ''/a'' 4096 0 []"
  let ?R = "request FsyncRequest 5 ''/a'' 0 0"
  have v: "validConfig (deviceConfig ?D)"
    by (simp add: validConfig_def concrete_defs)
  have c: "map_option sint (computeTime ?D ?R) = Some (- 8446744073709551616)"
    by (simp add: computeTime_saturate requestDuration_def sint_saturate concrete_defs)
  obtain dc' where e: "execute ?D 5 ?R = Some dc'"
    using execute_defined [of ?R ?D 5] deviceAt_matches by blast
  have "map_option (sint \<circ> fst) (Schedule ?D 5 ?R) = map_option sint (computeTime ?D ?R)"
    by (cases "computeTime ?D ?R") (simp_all add: Schedule_def e)
  then show ?thesis
    using v c by (simp only: deviceAt_matches simp_thms)
qed

text \<open>
  C2, amended. For every request of every kind and every device with a cache exactly
  under the cached fsync strategy, if the configuration has non-negative \<open>seekTime\<close> and
  \<open>metadataOpTime\<close> and positive bandwidths, and the per-kind duration of the request
  does not exceed the greatest \<^verbatim>\<open>time.Duration\<close>, \<open>2\<^sup>6\<^sup>3 - 1\<close> ns, then \<open>computeTime\<close>
  returns a duration (it does not panic), the duration is not negative, and \<open>Schedule\<close>
  returns that duration. The bound on the per-kind duration bounds the transfer time in
  it, so the theorem holds whatever the bandwidths are.
\<close>

theorem schedule_duration_nonneg:
  assumes "0 \<le> sint (SeekTime (deviceConfig dc))"
    and "0 \<le> sint (MetadataOpTime (deviceConfig dc))"
    and "cacheMatchesStrategy dc"
    and "spec_requestDuration dc req \<le> 2 ^ 63 - 1"
  shows "\<exists>d. computeTime dc req = Some d \<and> 0 \<le> sint d \<and>
           (\<exists>dc'. Schedule dc now req = Some (d, dc'))"
proof -
  obtain rd where rd: "requestDuration dc req = Some rd"
    using requestDuration_defined [of req dc] assms(3) by blast
  have "0 \<le> sint rd"
    using assms(1,2,4) rd by (rule requestDuration_nonneg(2))
  then have "0 \<le> max (busyUntil dc) (Timestamp req) + sint rd - Timestamp req"
    by simp
  then have nn: "0 \<le> sint (saturate (max (busyUntil dc) (Timestamp req) + sint rd -
      Timestamp req))"
    by (rule sint_saturate_nonneg)
  have c: "computeTime dc req =
      Some (saturate (max (busyUntil dc) (Timestamp req) + sint rd - Timestamp req))"
    by (simp add: computeTime_saturate rd)
  obtain dc' where "execute dc now req = Some dc'"
    using execute_defined [of req dc now] assms(3) by blast
  then show ?thesis
    using nn c by (simp add: Schedule_def)
qed

theorem schedule_duration_nonneg_witness:
  "0 \<le> sint (SeekTime (deviceConfig (deviceAt scenarioConfig ''/a'' 4096 210391000 []))) \<and>
   0 \<le> sint (MetadataOpTime (deviceConfig (deviceAt scenarioConfig ''/a'' 4096 210391000 []))) \<and>
   cacheMatchesStrategy (deviceAt scenarioConfig ''/a'' 4096 210391000 []) \<and>
   spec_requestDuration (deviceAt scenarioConfig ''/a'' 4096 210391000 [])
     (request ReadRequest 206000000 ''/b'' 0 1000000) \<le> 2 ^ 63 - 1 \<and>
   (\<exists>d. computeTime (deviceAt scenarioConfig ''/a'' 4096 210391000 [])
          (request ReadRequest 206000000 ''/b'' 0 1000000) = Some d \<and> 0 \<le> sint d \<and>
        (\<exists>dc'. Schedule (deviceAt scenarioConfig ''/a'' 4096 210391000 []) 206000000
                 (request ReadRequest 206000000 ''/b'' 0 1000000) = Some (d, dc')))"
proof -
  let ?D = "deviceAt scenarioConfig ''/a'' 4096 210391000 []"
  let ?R = "request ReadRequest 206000000 ''/b'' 0 1000000"
  have s: "0 \<le> sint (SeekTime (deviceConfig ?D))"
    and t: "0 \<le> sint (MetadataOpTime (deviceConfig ?D))"
    by (simp_all add: concrete_defs)
  have m: "cacheMatchesStrategy ?D"
    by (rule deviceAt_matches)
  have "spec_requestDuration ?D ?R = 105000000"
    by (simp add: spec_requestDuration_def spec_seekTime_def spec_transferTime_def
        roundHalfEven_def concrete_defs)
  then have r: "spec_requestDuration ?D ?R \<le> 2 ^ 63 - 1"
    by simp
  show ?thesis
    using s t m r schedule_duration_nonneg [OF s t m r] by blast
qed

subsection \<open>The busy time\<close>

text \<open>
  C3, as stated, fails: on a device busy until 300 years after the request, with the
  non-negative durations of the scenario configuration, the delay of a METADATA request
  saturates at \<open>2\<^sup>6\<^sup>3 - 1\<close> ns, about 292 years, and \<open>execute\<close> sets \<open>busyUntil\<close> to the
  timestamp plus that delay, which is earlier than \<open>busyUntil\<close> was.
\<close>

theorem busyUntil_decreases_counterexample:
  "0 \<le> sint (SeekTime (deviceConfig (deviceAt scenarioConfig '''' 0 9460800000000000000 []))) \<and>
   0 \<le> sint (MetadataOpTime
     (deviceConfig (deviceAt scenarioConfig '''' 0 9460800000000000000 []))) \<and>
   busyUntil (deviceAt scenarioConfig '''' 0 9460800000000000000 []) = 9460800000000000000 \<and>
   map_option busyUntil (execute (deviceAt scenarioConfig '''' 0 9460800000000000000 []) 0
     (request MetadataRequest 0 '''' 0 0)) = Some 9223372036854775807"
proof -
  let ?D = "deviceAt scenarioConfig '''' 0 9460800000000000000 []"
  let ?R = "request MetadataRequest 0 '''' 0 0"
  have c: "0 \<le> sint (SeekTime (deviceConfig ?D))" "0 \<le> sint (MetadataOpTime (deviceConfig ?D))"
    "busyUntil ?D = 9460800000000000000"
    by (simp_all add: concrete_defs)
  have t: "computeTime (prepared ?D 0 ?R) ?R = Some maxDuration"
    by (simp add: computeTime_saturate prepared_fields requestDuration_def saturate_def
        concrete_defs)
  have "map_option busyUntil (execute ?D 0 ?R) = Some (Add (Timestamp ?R) maxDuration)"
    by (simp add: execute_prepared t execute_kind_busyUntil)
  then have "map_option busyUntil (execute ?D 0 ?R) = Some 9223372036854775807"
    by (simp add: Add_def sint_maxDuration request_def)
  then show ?thesis
    using c by (simp only: simp_thms)
qed

text \<open>
  C3, amended. For every device, every request of any kind and any timestamp, also one
  earlier than \<open>busyUntil\<close>, and every clock reading, if the configured \<open>seekTime\<close> and
  \<open>metadataOpTime\<close> are not negative and the delay
  \<open>max(busyUntil, req.timestamp) + requestDuration - req.timestamp\<close> of the request does
  not exceed \<open>2\<^sup>6\<^sup>3 - 1\<close> ns, then \<open>busyUntil\<close> after \<open>execute\<close> is at least \<open>busyUntil\<close>
  before. \<open>execute\<close> does return a device when the cache is present exactly under the
  cached fsync strategy.
\<close>

theorem busyUntil_nondecreasing:
  assumes "0 \<le> sint (SeekTime (deviceConfig dc))"
    and "0 \<le> sint (MetadataOpTime (deviceConfig dc))"
    and "max (busyUntil dc) (Timestamp req) + spec_requestDuration dc req - Timestamp req
           \<le> 2 ^ 63 - 1"
  shows "(\<forall>dc'. execute dc now req = Some dc' \<longrightarrow> busyUntil dc \<le> busyUntil dc') \<and>
         (cacheMatchesStrategy dc \<longrightarrow> (\<exists>dc'. execute dc now req = Some dc'))"
proof -
  have mono: "busyUntil dc \<le> busyUntil dc'" if e: "execute dc now req = Some dc'" for dc'
  proof -
    from execute_Some(1) [OF e] obtain rd where
      rd: "requestDuration (prepared dc now req) req = Some rd"
      and b: "busyUntil dc' = Timestamp req +
        sint (saturate (max (busyUntil dc) (Timestamp req) + sint rd - Timestamp req))"
      by blast
    have le: "spec_requestDuration (prepared dc now req) req \<le> spec_requestDuration dc req"
      by (rule spec_requestDuration_prepared)
    have fit: "spec_requestDuration (prepared dc now req) req \<le> 2 ^ 63 - 1"
      using le assms(3) by simp
    have s: "sint rd = spec_requestDuration (prepared dc now req) req" and n: "0 \<le> sint rd"
      using requestDuration_nonneg [OF _ _ fit rd] assms(1,2)
      by (simp_all add: prepared_fields)
    have "inDurationRange (max (busyUntil dc) (Timestamp req) + sint rd - Timestamp req)"
      using n s le assms(3) by (simp add: inDurationRange_def)
    then have "busyUntil dc' = max (busyUntil dc) (Timestamp req) + sint rd"
      by (simp add: b sint_saturate_range)
    then show ?thesis
      using n by simp
  qed
  show ?thesis
    using mono execute_defined [of req dc now] by blast
qed

theorem busyUntil_nondecreasing_witness:
  "0 \<le> sint (SeekTime (deviceConfig (deviceAt scenarioConfig ''/a'' 4096 210391000 []))) \<and>
   0 \<le> sint (MetadataOpTime (deviceConfig (deviceAt scenarioConfig ''/a'' 4096 210391000 []))) \<and>
   max (busyUntil (deviceAt scenarioConfig ''/a'' 4096 210391000 []))
       (Timestamp (request ReadRequest 206000000 ''/b'' 0 1000000)) +
     spec_requestDuration (deviceAt scenarioConfig ''/a'' 4096 210391000 [])
       (request ReadRequest 206000000 ''/b'' 0 1000000) -
     Timestamp (request ReadRequest 206000000 ''/b'' 0 1000000) \<le> 2 ^ 63 - 1 \<and>
   cacheMatchesStrategy (deviceAt scenarioConfig ''/a'' 4096 210391000 []) \<and>
   (\<exists>dc'. execute (deviceAt scenarioConfig ''/a'' 4096 210391000 []) 206000000
             (request ReadRequest 206000000 ''/b'' 0 1000000) = Some dc' \<and>
          busyUntil (deviceAt scenarioConfig ''/a'' 4096 210391000 []) \<le> busyUntil dc')"
proof -
  let ?D = "deviceAt scenarioConfig ''/a'' 4096 210391000 []"
  let ?R = "request ReadRequest 206000000 ''/b'' 0 1000000"
  have s: "0 \<le> sint (SeekTime (deviceConfig ?D))"
    and t: "0 \<le> sint (MetadataOpTime (deviceConfig ?D))"
    by (simp_all add: concrete_defs)
  have m: "cacheMatchesStrategy ?D"
    by (rule deviceAt_matches)
  have "spec_requestDuration ?D ?R = 105000000"
    by (simp add: spec_requestDuration_def spec_seekTime_def spec_transferTime_def
        roundHalfEven_def concrete_defs)
  moreover have "busyUntil ?D = 210391000" "Timestamp ?R = 206000000"
    by (simp_all add: concrete_defs)
  ultimately have r: "max (busyUntil ?D) (Timestamp ?R) + spec_requestDuration ?D ?R -
      Timestamp ?R \<le> 2 ^ 63 - 1"
    by simp
  show ?thesis
    using s t r m busyUntil_nondecreasing [OF s t r, of 206000000] by blast
qed

subsection \<open>Seeking\<close>

text \<open>
  C4, as stated, fails where it says that a request starting at \<open>firstUnseenByte\<close> of the
  tracked file never seeks: with a seek window of 0 such a request pays the seek time,
  since \<open>req.Start - firstUnseenByte = 0 \<ge> SeekWindow\<close>.
\<close>

theorem computeSeekTime_same_offset_counterexample:
  "Path (request ReadRequest 0 ''/a'' 10 4096) =
     lastAccessedFile (deviceAt (scenarioConfig\<lparr>SeekWindow := 0\<rparr>) ''/a'' 10 0 []) \<and>
   Start (request ReadRequest 0 ''/a'' 10 4096) =
     firstUnseenByte (deviceAt (scenarioConfig\<lparr>SeekWindow := 0\<rparr>) ''/a'' 10 0 []) \<and>
   computeSeekTime (deviceAt (scenarioConfig\<lparr>SeekWindow := 0\<rparr>) ''/a'' 10 0 [])
     (request ReadRequest 0 ''/a'' 10 4096) = 5000000"
  by (simp add: computeSeekTime_def concrete_defs)

text \<open>
  C4, amended. \<open>computeSeekTime\<close> returns the configured \<open>seekTime\<close> when
  \<open>req.path \<noteq> lastAccessedFile\<close>, or \<open>req.start < firstUnseenByte\<close>, or
  \<open>req.start - firstUnseenByte \<ge> seekWindow\<close>, and zero otherwise. A request on the
  tracked file with \<open>req.start = firstUnseenByte\<close> pays no seek when the seek window is
  positive; with a seek window of 0 every request pays the seek.
\<close>

theorem computeSeekTime_cases:
  "computeSeekTime dc req =
     (if Path req \<noteq> lastAccessedFile dc \<or> Start req < firstUnseenByte dc \<or>
         int (SeekWindow (deviceConfig dc)) \<le> int (Start req) - int (firstUnseenByte dc)
      then SeekTime (deviceConfig dc) else 0) \<and>
   (Path req = lastAccessedFile dc \<and> Start req = firstUnseenByte dc \<and>
      0 < SeekWindow (deviceConfig dc) \<longrightarrow> computeSeekTime dc req = 0) \<and>
   (SeekWindow (deviceConfig dc) = 0 \<longrightarrow> computeSeekTime dc req = SeekTime (deviceConfig dc))"
  by (auto simp: computeSeekTime_def)

theorem computeSeekTime_cases_witness:
  "Path (request ReadRequest 0 ''/a'' 10 4096) =
     lastAccessedFile (deviceAt scenarioConfig ''/a'' 10 0 []) \<and>
   Start (request ReadRequest 0 ''/a'' 10 4096) =
     firstUnseenByte (deviceAt scenarioConfig ''/a'' 10 0 []) \<and>
   0 < SeekWindow (deviceConfig (deviceAt scenarioConfig ''/a'' 10 0 [])) \<and>
   computeSeekTime (deviceAt scenarioConfig ''/a'' 10 0 [])
     (request ReadRequest 0 ''/a'' 10 4096) = 0 \<and>
   SeekWindow (deviceConfig (deviceAt (scenarioConfig\<lparr>SeekWindow := 0\<rparr>) ''/a'' 10 0 [])) = 0 \<and>
   computeSeekTime (deviceAt (scenarioConfig\<lparr>SeekWindow := 0\<rparr>) ''/a'' 10 0 [])
     (request ReadRequest 0 ''/a'' 20 4096) =
   SeekTime (deviceConfig (deviceAt (scenarioConfig\<lparr>SeekWindow := 0\<rparr>) ''/a'' 10 0 []))"
proof -
  have p: "Path (request ReadRequest 0 ''/a'' 10 4096) =
      lastAccessedFile (deviceAt scenarioConfig ''/a'' 10 0 [])"
    and o: "Start (request ReadRequest 0 ''/a'' 10 4096) =
      firstUnseenByte (deviceAt scenarioConfig ''/a'' 10 0 [])"
    and w: "0 < SeekWindow (deviceConfig (deviceAt scenarioConfig ''/a'' 10 0 []))"
    and z: "SeekWindow (deviceConfig
      (deviceAt (scenarioConfig\<lparr>SeekWindow := 0\<rparr>) ''/a'' 10 0 [])) = 0"
    by (simp_all add: concrete_defs)
  show ?thesis
    using p o w z
      computeSeekTime_cases [of "deviceAt scenarioConfig ''/a'' 10 0 []"
        "request ReadRequest 0 ''/a'' 10 4096"]
      computeSeekTime_cases [of "deviceAt (scenarioConfig\<lparr>SeekWindow := 0\<rparr>) ''/a'' 10 0 []"
        "request ReadRequest 0 ''/a'' 20 4096"]
    by blast
qed

subsection \<open>Writes, closes and the sequentiality state\<close>

text \<open>
  C7. For every WRITE request executed under the write strategy \<open>fast\<close>, from every
  prior state, \<open>execute\<close> returns a device whose \<open>lastAccessedFile\<close> and
  \<open>firstUnseenByte\<close> are those before the write.
\<close>

theorem fast_write_keeps_sequentiality:
  assumes "Type req = WriteRequest" and "WriteStrategy (deviceConfig dc) = FastWrite"
  shows "\<exists>dc'. execute dc now req = Some dc' \<and>
           lastAccessedFile dc' = lastAccessedFile dc \<and>
           firstUnseenByte dc' = firstUnseenByte dc"
proof -
  have "Type req \<noteq> FsyncRequest \<or> cacheMatchesStrategy (prepared dc now req)"
    using assms(1) by (simp add: RequestType_defs)
  then obtain t where t: "computeTime (prepared dc now req) req = Some t"
    using computeTime_defined by blast
  have "lastAccessedFile (execute_kind ((prepared dc now req)\<lparr>busyUntil := Add (Timestamp req) t\<rparr>) req)
          = lastAccessedFile dc \<and>
        firstUnseenByte (execute_kind ((prepared dc now req)\<lparr>busyUntil := Add (Timestamp req) t\<rparr>) req)
          = firstUnseenByte dc"
    using assms
    by (simp add: execute_kind_def Let_def prepared_fields RequestType_defs split: option.splits)
  then show ?thesis
    by (simp add: execute_prepared t)
qed

theorem fast_write_keeps_sequentiality_witness:
  "Type (request WriteRequest 9 ''/c'' 0 512000) = WriteRequest \<and>
   WriteStrategy (deviceConfig
     (deviceAt (scenarioConfig\<lparr>WriteStrategy := FastWrite\<rparr>) ''/a'' 4096 7 [])) = FastWrite \<and>
   (\<exists>dc'. execute (deviceAt (scenarioConfig\<lparr>WriteStrategy := FastWrite\<rparr>) ''/a'' 4096 7 []) 9
            (request WriteRequest 9 ''/c'' 0 512000) = Some dc' \<and>
          lastAccessedFile dc' = ''/a'' \<and> firstUnseenByte dc' = 4096)"
proof -
  have k: "Type (request WriteRequest 9 ''/c'' 0 512000) = WriteRequest"
    by (simp add: request_def)
  have f: "WriteStrategy (deviceConfig
     (deviceAt (scenarioConfig\<lparr>WriteStrategy := FastWrite\<rparr>) ''/a'' 4096 7 [])) = FastWrite"
    by (simp add: concrete_defs)
  have l: "lastAccessedFile
      (deviceAt (scenarioConfig\<lparr>WriteStrategy := FastWrite\<rparr>) ''/a'' 4096 7 []) = ''/a''"
    and u: "firstUnseenByte
      (deviceAt (scenarioConfig\<lparr>WriteStrategy := FastWrite\<rparr>) ''/a'' 4096 7 []) = 4096"
    by (simp_all add: concrete_defs)
  show ?thesis
    using k f fast_write_keeps_sequentiality [OF k f, of 9] by (simp add: l u)
qed

text \<open>Facts about the cache operations and about \<open>execute\<close> per request kind.\<close>

lemma getUnwrittenBytes_close: "getUnwrittenBytes (close c p) p = 0"
  by (simp add: getUnwrittenBytes_def close_def AList.delete_conv')

lemma close_removes: "p \<notin> fst ` set (dirtyBytes (close c p))"
  by (simp add: close_def AList.delete_notin_dom)

lemma close_close: "close (close c p) p = close c p"
  by (simp add: close_def AList.delete_idem)

lemma getUnwrittenBytes_cacheWrite:
  "getUnwrittenBytes (cacheWrite c p n) p = getUnwrittenBytes c p + n"
  by (simp add: getUnwrittenBytes_def cacheWrite_def AList.update_conv')

lemma spareCache_busy:
  "Timestamp req \<le> busyUntil dc \<Longrightarrow> spareCache dc req = writeBackCache dc"
  by (simp add: spareCache_def split: option.splits)

lemma execute_close:
  assumes "Type req = CloseRequest"
  shows "\<exists>dc'. execute dc now req = Some dc' \<and>
     deviceConfig dc' = deviceConfig dc \<and>
     busyUntil dc' = Timestamp req +
       sint (saturate (max (busyUntil dc) (Timestamp req) +
               sint (MetadataOpTime (deviceConfig dc)) - Timestamp req)) \<and>
     writeBackCache dc' = map_option (\<lambda>c. close c (Path req)) (spareCache dc req) \<and>
     lastAccessedFile dc' =
       (if lastAccessedFile dc = Path req then '''' else lastAccessedFile dc) \<and>
     firstUnseenByte dc' =
       (if lastAccessedFile dc = Path req then 0 else firstUnseenByte dc)"
proof -
  have "requestDuration (prepared dc now req) req = Some (MetadataOpTime (deviceConfig dc))"
    using assms by (simp add: requestDuration_def prepared_fields)
  then have t: "computeTime (prepared dc now req) req =
      Some (saturate (max (busyUntil dc) (Timestamp req) +
              sint (MetadataOpTime (deviceConfig dc)) - Timestamp req))"
    by (simp add: computeTime_saturate prepared_fields)
  show ?thesis
    using assms
    by (simp add: execute_prepared t execute_kind_def Let_def prepared_fields RequestType_defs
        Add_def split: option.splits)
qed

lemma execute_unknown:
  assumes "\<not> handledKind (Type req)"
  shows "execute dc now req =
     Some ((prepared dc now req)\<lparr>busyUntil :=
        Timestamp req + sint (saturate (max (busyUntil dc) (Timestamp req) - Timestamp req))\<rparr>)"
proof -
  have "requestDuration (prepared dc now req) req = Some 0"
    using assms by (rule requestDuration_unknown)
  then have t: "computeTime (prepared dc now req) req =
      Some (saturate (max (busyUntil dc) (Timestamp req) - Timestamp req))"
    by (simp add: computeTime_saturate prepared_fields)
  show ?thesis
    using assms by (simp add: execute_prepared t execute_kind_unknown Add_def)
qed

lemma execute_write:
  assumes "Type req = WriteRequest"
  shows "\<exists>dc'. execute dc now req = Some dc' \<and>
     deviceConfig dc' = deviceConfig dc \<and>
     writeBackCache dc' =
       map_option (\<lambda>c. cacheWrite c (Path req) (Size req)) (spareCache dc req)"
proof -
  have "Type req \<noteq> FsyncRequest \<or> cacheMatchesStrategy (prepared dc now req)"
    using assms by (simp add: RequestType_defs)
  then obtain t where t: "computeTime (prepared dc now req) req = Some t"
    using computeTime_defined by blast
  show ?thesis
    using assms
    by (simp add: execute_prepared t execute_kind_def Let_def prepared_fields RequestType_defs
        split: option.splits WriteStrategy.splits)
qed

lemma Schedule_defined:
  assumes "Type req \<noteq> FsyncRequest"
  shows "\<exists>d dc'. Schedule dc now req = Some (d, dc')"
proof -
  obtain d where "computeTime dc req = Some d"
    using computeTime_defined [of req dc] assms by blast
  moreover obtain dc' where "execute dc now req = Some dc'"
    using execute_defined [of req dc now] assms by blast
  ultimately show ?thesis
    by (simp add: Schedule_def)
qed

text \<open>
  C8. For every path \<open>p\<close> and every device, after executing CLOSE(\<open>p\<close>) the cache, when
  there is one, has no entry for \<open>p\<close>, so that its dirty bytes for \<open>p\<close> are 0; if
  \<open>lastAccessedFile\<close> was \<open>p\<close>, it is cleared and \<open>firstUnseenByte\<close> is 0; if it was
  another path, the sequentiality state is unchanged.
\<close>

theorem close_effect:
  assumes "Type req = CloseRequest"
  shows "\<exists>dc'. execute dc now req = Some dc' \<and>
     (\<forall>c'. writeBackCache dc' = Some c' \<longrightarrow>
        Path req \<notin> fst ` set (dirtyBytes c') \<and> getUnwrittenBytes c' (Path req) = 0) \<and>
     (lastAccessedFile dc = Path req \<longrightarrow>
        lastAccessedFile dc' = '''' \<and> firstUnseenByte dc' = 0) \<and>
     (lastAccessedFile dc \<noteq> Path req \<longrightarrow>
        lastAccessedFile dc' = lastAccessedFile dc \<and>
        firstUnseenByte dc' = firstUnseenByte dc)"
proof -
  from execute_close [OF assms, of dc now] obtain dc' where
    e: "execute dc now req = Some dc'"
    and c: "writeBackCache dc' = map_option (\<lambda>c. close c (Path req)) (spareCache dc req)"
    and l: "lastAccessedFile dc' =
       (if lastAccessedFile dc = Path req then '''' else lastAccessedFile dc)"
    and u: "firstUnseenByte dc' =
       (if lastAccessedFile dc = Path req then 0 else firstUnseenByte dc)"
    by blast
  have "\<forall>c'. writeBackCache dc' = Some c' \<longrightarrow>
        Path req \<notin> fst ` set (dirtyBytes c') \<and> getUnwrittenBytes c' (Path req) = 0"
  proof (intro allI impI)
    fix c'
    assume "writeBackCache dc' = Some c'"
    with c obtain z where "c' = close z (Path req)"
      by (cases "spareCache dc req") auto
    then show "Path req \<notin> fst ` set (dirtyBytes c') \<and> getUnwrittenBytes c' (Path req) = 0"
      by (simp add: getUnwrittenBytes_close close_removes)
  qed
  then show ?thesis
    using e l u by simp
qed

theorem close_effect_witness:
  "Type (request CloseRequest 9 ''/a'' 0 0) = CloseRequest \<and>
   lastAccessedFile (deviceAt scenarioConfig ''/a'' 4096 7 [(''/a'', 512000)]) =
     Path (request CloseRequest 9 ''/a'' 0 0) \<and>
   (\<exists>dc' c'. execute (deviceAt scenarioConfig ''/a'' 4096 7 [(''/a'', 512000)]) 9
            (request CloseRequest 9 ''/a'' 0 0) = Some dc' \<and>
      writeBackCache dc' = Some c' \<and>
      ''/a'' \<notin> fst ` set (dirtyBytes c') \<and> getUnwrittenBytes c' ''/a'' = 0 \<and>
      lastAccessedFile dc' = '''' \<and> firstUnseenByte dc' = 0)"
proof -
  have k: "Type (request CloseRequest 9 ''/a'' 0 0) = CloseRequest"
    and p: "Path (request CloseRequest 9 ''/a'' 0 0) = ''/a''"
    by (simp_all add: request_def)
  have l: "lastAccessedFile (deviceAt scenarioConfig ''/a'' 4096 7 [(''/a'', 512000)]) =
     Path (request CloseRequest 9 ''/a'' 0 0)"
    by (simp add: concrete_defs)
  from close_effect [OF k, of "deviceAt scenarioConfig ''/a'' 4096 7 [(''/a'', 512000)]" 9]
  obtain dc' where e: "execute (deviceAt scenarioConfig ''/a'' 4096 7 [(''/a'', 512000)]) 9
            (request CloseRequest 9 ''/a'' 0 0) = Some dc'"
    and c: "\<forall>c'. writeBackCache dc' = Some c' \<longrightarrow>
        ''/a'' \<notin> fst ` set (dirtyBytes c') \<and> getUnwrittenBytes c' ''/a'' = 0"
    and s: "lastAccessedFile dc' = '''' \<and> firstUnseenByte dc' = 0"
    using l unfolding p by blast
  have "cacheMatchesStrategy dc'"
    using execute_matches [OF deviceAt_matches e] .
  then obtain c' where "writeBackCache dc' = Some c'"
    using execute_Some(2) [OF e]
    by (auto simp: cacheMatchesStrategy_def concrete_defs)
  then show ?thesis
    using k l e c s by blast
qed

subsection \<open>The file handlers on a failed operation\<close>

text \<open>
  C5, as stated, fails: when the read or the write of the backing file answers with a
  status other than OK (here EIO = 5 and ENOSPC = 28), the handler returns at once; no
  request is passed to \<open>Schedule\<close> and the device is the one before.
\<close>

theorem failed_io_counterexample:
  "readStatus \<lparr>readStatus = 5, readSize = 0, bytesStatus = 0, bytesSize = 0\<rparr> \<noteq> OK \<and>
   slowFile_Read (newDeviceContext scenarioConfig 0) ''/a'' 7 7
     \<lparr>readStatus = 5, readSize = 0, bytesStatus = 0, bytesSize = 0\<rparr> 0 =
   Some \<lparr>status = 5, resultSize = Some 0, scheduled = [],
         device = newDeviceContext scenarioConfig 0\<rparr> \<and>
   writeStatus \<lparr>writeStatus = 28, written = 0\<rparr> \<noteq> OK \<and>
   slowFile_Write (newDeviceContext scenarioConfig 0) ''/a'' 7 7
     \<lparr>writeStatus = 28, written = 0\<rparr> 0 =
   Some \<lparr>status = 28, resultSize = Some 0, scheduled = [],
         device = newDeviceContext scenarioConfig 0\<rparr>"
  by (simp add: slowFile_Read_def slowFile_Write_def OK_def)

text \<open>
  C5, amended. When the underlying read or write fails, \<open>Read\<close> and \<open>Write\<close> return the
  failing status without calling \<open>Schedule\<close>, and the device is unchanged. They call
  \<open>Schedule\<close>, once, with the byte count actually transferred, when the underlying
  operation succeeded.
\<close>

theorem failed_io_not_scheduled:
  "(readStatus r \<noteq> OK \<longrightarrow>
      slowFile_Read dc path start now r off =
        Some \<lparr>status = readStatus r, resultSize = Some (readSize r), scheduled = [],
              device = dc\<rparr>) \<and>
   (readStatus r = OK \<and> bytesStatus r \<noteq> OK \<longrightarrow>
      slowFile_Read dc path start now r off =
        Some \<lparr>status = bytesStatus r, resultSize = None, scheduled = [], device = dc\<rparr>) \<and>
   (writeStatus w \<noteq> OK \<longrightarrow>
      slowFile_Write dc path start now w off =
        Some \<lparr>status = writeStatus w, resultSize = Some (written w), scheduled = [],
              device = dc\<rparr>) \<and>
   (readStatus r = OK \<and> bytesStatus r = OK \<longrightarrow>
      (\<exists>d dc'.
         Schedule dc now (request ReadRequest start path off (bytesSize r)) = Some (d, dc') \<and>
         slowFile_Read dc path start now r off =
           Some \<lparr>status = OK, resultSize = Some (bytesSize r),
                 scheduled = [request ReadRequest start path off (bytesSize r)],
                 device = dc'\<rparr>)) \<and>
   (writeStatus w = OK \<longrightarrow>
      (\<exists>d dc'.
         Schedule dc now (request WriteRequest start path off (written w)) = Some (d, dc') \<and>
         slowFile_Write dc path start now w off =
           Some \<lparr>status = OK, resultSize = Some (written w),
                 scheduled = [request WriteRequest start path off (written w)],
                 device = dc'\<rparr>))"
proof -
  have rd: "\<exists>d dc'. Schedule dc now (request ReadRequest start path off (bytesSize r)) =
      Some (d, dc')"
    by (rule Schedule_defined) (simp add: concrete_defs)
  have wr: "\<exists>d dc'. Schedule dc now (request WriteRequest start path off (written w)) =
      Some (d, dc')"
    by (rule Schedule_defined) (simp add: concrete_defs)
  show ?thesis
    using rd wr by (auto simp: slowFile_Read_def slowFile_Write_def request_def)
qed

theorem failed_io_not_scheduled_witness:
  "readStatus \<lparr>readStatus = 5, readSize = 0, bytesStatus = 0, bytesSize = 0\<rparr> \<noteq> OK \<and>
   scheduled (the (slowFile_Read (newDeviceContext scenarioConfig 0) ''/a'' 7 7
     \<lparr>readStatus = 5, readSize = 0, bytesStatus = 0, bytesSize = 0\<rparr> 0)) = [] \<and>
   readStatus \<lparr>readStatus = 0, readSize = 4096, bytesStatus = 5, bytesSize = 0\<rparr> = OK \<and>
   bytesStatus \<lparr>readStatus = 0, readSize = 4096, bytesStatus = 5, bytesSize = 0\<rparr> \<noteq> OK \<and>
   scheduled (the (slowFile_Read (newDeviceContext scenarioConfig 0) ''/a'' 7 7
     \<lparr>readStatus = 0, readSize = 4096, bytesStatus = 5, bytesSize = 0\<rparr> 0)) = [] \<and>
   writeStatus \<lparr>writeStatus = 28, written = 0\<rparr> \<noteq> OK \<and>
   scheduled (the (slowFile_Write (newDeviceContext scenarioConfig 0) ''/a'' 7 7
     \<lparr>writeStatus = 28, written = 0\<rparr> 0)) = [] \<and>
   readStatus \<lparr>readStatus = 0, readSize = 4096, bytesStatus = 0, bytesSize = 4096\<rparr> = OK \<and>
   bytesStatus \<lparr>readStatus = 0, readSize = 4096, bytesStatus = 0, bytesSize = 4096\<rparr> = OK \<and>
   scheduled (the (slowFile_Read (newDeviceContext scenarioConfig 0) ''/a'' 7 7
     \<lparr>readStatus = 0, readSize = 4096, bytesStatus = 0, bytesSize = 4096\<rparr> 0)) =
     [request ReadRequest 7 ''/a'' 0 4096] \<and>
   writeStatus \<lparr>writeStatus = 0, written = 512\<rparr> = OK \<and>
   scheduled (the (slowFile_Write (newDeviceContext scenarioConfig 0) ''/a'' 7 7
     \<lparr>writeStatus = 0, written = 512\<rparr> 0)) = [request WriteRequest 7 ''/a'' 0 512]"
  using
    failed_io_not_scheduled [of "\<lparr>readStatus = 5, readSize = 0, bytesStatus = 0, bytesSize = 0\<rparr>"
      "newDeviceContext scenarioConfig 0" "''/a''" 7 7 0 "\<lparr>writeStatus = 28, written = 0\<rparr>"]
    failed_io_not_scheduled [of
      "\<lparr>readStatus = 0, readSize = 4096, bytesStatus = 5, bytesSize = 0\<rparr>"
      "newDeviceContext scenarioConfig 0" "''/a''" 7 7 0 "\<lparr>writeStatus = 0, written = 512\<rparr>"]
    failed_io_not_scheduled [of
      "\<lparr>readStatus = 0, readSize = 4096, bytesStatus = 0, bytesSize = 4096\<rparr>"
      "newDeviceContext scenarioConfig 0" "''/a''" 7 7 0 "\<lparr>writeStatus = 0, written = 512\<rparr>"]
  by (auto simp: OK_def)

subsection \<open>Closing a file twice\<close>

text \<open>
  C9, as stated, fails: every CLOSE costs \<open>metadataOpTime\<close>, so after two CLOSEs of a
  path \<open>busyUntil\<close> is later than after one, and the final states differ.
\<close>

theorem close_twice_counterexample:
  "executeAll (deviceAt scenarioConfig ''/a'' 4096 0 [])
     [(0, request CloseRequest 0 ''/a'' 0 0), (0, request CloseRequest 0 ''/a'' 0 0)] \<noteq>
   executeAll (deviceAt scenarioConfig ''/a'' 4096 0 [])
     [(0, request CloseRequest 0 ''/a'' 0 0)] \<and>
   map_option busyUntil (executeAll (deviceAt scenarioConfig ''/a'' 4096 0 [])
     [(0, request CloseRequest 0 ''/a'' 0 0)]) = Some 1000000 \<and>
   map_option busyUntil (executeAll (deviceAt scenarioConfig ''/a'' 4096 0 [])
     [(0, request CloseRequest 0 ''/a'' 0 0), (0, request CloseRequest 0 ''/a'' 0 0)]) =
     Some 2000000"
  (is "?two \<noteq> ?one \<and> _ \<and> _")
proof -
  have one: "map_option busyUntil ?one = Some 1000000"
    by (simp add: eval_defs concrete_defs)
  have two: "map_option busyUntil ?two = Some 2000000"
    by (simp add: eval_defs concrete_defs)
  have "?two \<noteq> ?one"
  proof
    assume eq: "?two = ?one"
    have "Some (2000000::int) = map_option busyUntil ?two"
      by (simp only: two)
    also have "\<dots> = map_option busyUntil ?one"
      by (simp only: eq)
    also have "\<dots> = Some 1000000"
      by (rule one)
    finally show False
      by simp
  qed
  with one two show ?thesis
    by (intro conjI)
qed

text \<open>
  C9, amended. Two consecutive CLOSE(\<open>p\<close>) requests leave the sequentiality state that
  one leaves, and no dirty bytes for \<open>p\<close>, as one does; the whole cache is the same as
  after one CLOSE when the second arrives with no spare time (its timestamp is not after
  \<open>busyUntil\<close>). \<open>busyUntil\<close> after the second CLOSE is its timestamp plus its delay;
  when that delay lies in the range of \<^verbatim>\<open>time.Duration\<close> this is the later of the first
  one's \<open>busyUntil\<close> and the second timestamp, plus \<open>metadataOpTime\<close>: later than after
  one CLOSE when \<open>metadataOpTime\<close> is positive, and the same when \<open>metadataOpTime\<close> is
  zero and the second CLOSE arrives with no spare time.
\<close>

theorem close_twice:
  assumes "Type r1 = CloseRequest" and "Type r2 = CloseRequest" and "Path r2 = Path r1"
  shows "\<exists>dc1 dc2.
     executeAll dc [(n1, r1)] = Some dc1 \<and>
     executeAll dc [(n1, r1), (n2, r2)] = Some dc2 \<and>
     lastAccessedFile dc2 = lastAccessedFile dc1 \<and>
     firstUnseenByte dc2 = firstUnseenByte dc1 \<and>
     (\<forall>c. writeBackCache dc1 = Some c \<longrightarrow> getUnwrittenBytes c (Path r1) = 0) \<and>
     (\<forall>c. writeBackCache dc2 = Some c \<longrightarrow> getUnwrittenBytes c (Path r1) = 0) \<and>
     (Timestamp r2 \<le> busyUntil dc1 \<longrightarrow> writeBackCache dc2 = writeBackCache dc1) \<and>
     busyUntil dc2 = Timestamp r2 +
       sint (saturate (max (busyUntil dc1) (Timestamp r2) +
               sint (MetadataOpTime (deviceConfig dc)) - Timestamp r2)) \<and>
     (inDurationRange (max (busyUntil dc1) (Timestamp r2) +
        sint (MetadataOpTime (deviceConfig dc)) - Timestamp r2) \<longrightarrow>
        busyUntil dc2 =
          max (busyUntil dc1) (Timestamp r2) + sint (MetadataOpTime (deviceConfig dc)) \<and>
        (0 < sint (MetadataOpTime (deviceConfig dc)) \<longrightarrow> busyUntil dc1 < busyUntil dc2) \<and>
        (sint (MetadataOpTime (deviceConfig dc)) = 0 \<and> Timestamp r2 \<le> busyUntil dc1 \<longrightarrow>
           busyUntil dc2 = busyUntil dc1))"
proof -
  from execute_close [OF assms(1), of dc n1] obtain dc1 where
    e1: "execute dc n1 r1 = Some dc1"
    and g1: "deviceConfig dc1 = deviceConfig dc"
    and c1: "writeBackCache dc1 = map_option (\<lambda>c. close c (Path r1)) (spareCache dc r1)"
    and l1: "lastAccessedFile dc1 =
       (if lastAccessedFile dc = Path r1 then '''' else lastAccessedFile dc)"
    and u1: "firstUnseenByte dc1 =
       (if lastAccessedFile dc = Path r1 then 0 else firstUnseenByte dc)"
    by blast
  from execute_close [OF assms(2), of dc1 n2] obtain dc2 where
    e2: "execute dc1 n2 r2 = Some dc2"
    and b2: "busyUntil dc2 = Timestamp r2 +
       sint (saturate (max (busyUntil dc1) (Timestamp r2) +
               sint (MetadataOpTime (deviceConfig dc1)) - Timestamp r2))"
    and c2: "writeBackCache dc2 = map_option (\<lambda>c. close c (Path r1)) (spareCache dc1 r2)"
    and l2: "lastAccessedFile dc2 =
       (if lastAccessedFile dc1 = Path r1 then '''' else lastAccessedFile dc1)"
    and u2: "firstUnseenByte dc2 =
       (if lastAccessedFile dc1 = Path r1 then 0 else firstUnseenByte dc1)"
    unfolding assms(3) by blast
  have seq: "lastAccessedFile dc2 = lastAccessedFile dc1 \<and>
      firstUnseenByte dc2 = firstUnseenByte dc1"
    using l1 u1 l2 u2 by (auto split: if_splits)
  have z1: "\<forall>c. writeBackCache dc1 = Some c \<longrightarrow> getUnwrittenBytes c (Path r1) = 0"
    using c1 by (cases "spareCache dc r1") (auto simp: getUnwrittenBytes_close)
  have z2: "\<forall>c. writeBackCache dc2 = Some c \<longrightarrow> getUnwrittenBytes c (Path r1) = 0"
    using c2 by (cases "spareCache dc1 r2") (auto simp: getUnwrittenBytes_close)
  have same: "Timestamp r2 \<le> busyUntil dc1 \<longrightarrow> writeBackCache dc2 = writeBackCache dc1"
  proof
    assume "Timestamp r2 \<le> busyUntil dc1"
    then have "spareCache dc1 r2 = writeBackCache dc1"
      by (rule spareCache_busy)
    then show "writeBackCache dc2 = writeBackCache dc1"
      using c1 c2 by (cases "spareCache dc r1") (simp_all add: close_close)
  qed
  have b: "busyUntil dc2 = Timestamp r2 +
       sint (saturate (max (busyUntil dc1) (Timestamp r2) +
               sint (MetadataOpTime (deviceConfig dc)) - Timestamp r2))"
    using b2 by (simp add: g1)
  have fit: "inDurationRange (max (busyUntil dc1) (Timestamp r2) +
        sint (MetadataOpTime (deviceConfig dc)) - Timestamp r2) \<longrightarrow>
        busyUntil dc2 =
          max (busyUntil dc1) (Timestamp r2) + sint (MetadataOpTime (deviceConfig dc)) \<and>
        (0 < sint (MetadataOpTime (deviceConfig dc)) \<longrightarrow> busyUntil dc1 < busyUntil dc2) \<and>
        (sint (MetadataOpTime (deviceConfig dc)) = 0 \<and> Timestamp r2 \<le> busyUntil dc1 \<longrightarrow>
           busyUntil dc2 = busyUntil dc1)"
    by (auto simp: b sint_saturate_range)
  have a1: "executeAll dc [(n1, r1)] = Some dc1"
    by (simp add: e1)
  have a2: "executeAll dc [(n1, r1), (n2, r2)] = Some dc2"
    by (simp add: e1 e2)
  show ?thesis
    using a1 a2 seq z1 z2 same b fit by blast
qed

theorem close_twice_witness:
  "Type (request CloseRequest 0 ''/a'' 0 0) = CloseRequest \<and>
   Path (request CloseRequest 0 ''/a'' 0 0) = Path (request CloseRequest 0 ''/a'' 0 0) \<and>
   0 < sint (MetadataOpTime
     (deviceConfig (deviceAt scenarioConfig ''/a'' 4096 0 [(''/a'', 512000)]))) \<and>
   (\<exists>dc1 dc2.
     executeAll (deviceAt scenarioConfig ''/a'' 4096 0 [(''/a'', 512000)])
       [(0, request CloseRequest 0 ''/a'' 0 0)] = Some dc1 \<and>
     executeAll (deviceAt scenarioConfig ''/a'' 4096 0 [(''/a'', 512000)])
       [(0, request CloseRequest 0 ''/a'' 0 0), (0, request CloseRequest 0 ''/a'' 0 0)] =
       Some dc2 \<and>
     Timestamp (request CloseRequest 0 ''/a'' 0 0) \<le> busyUntil dc1 \<and>
     inDurationRange (max (busyUntil dc1) (Timestamp (request CloseRequest 0 ''/a'' 0 0)) +
        sint (MetadataOpTime
          (deviceConfig (deviceAt scenarioConfig ''/a'' 4096 0 [(''/a'', 512000)]))) -
        Timestamp (request CloseRequest 0 ''/a'' 0 0)) \<and>
     lastAccessedFile dc2 = lastAccessedFile dc1 \<and>
     firstUnseenByte dc2 = firstUnseenByte dc1 \<and>
     writeBackCache dc2 = writeBackCache dc1 \<and>
     busyUntil dc1 = 1000000 \<and> busyUntil dc2 = 2000000 \<and> busyUntil dc1 < busyUntil dc2)"
proof -
  let ?D = "deviceAt scenarioConfig ''/a'' 4096 0 [(''/a'', 512000)]"
  let ?R = "request CloseRequest 0 ''/a'' 0 0"
  have k: "Type ?R = CloseRequest"
    by (simp add: request_def)
  have m: "sint (MetadataOpTime (deviceConfig ?D)) = 1000000"
    and ts: "Timestamp ?R = 0"
    by (simp_all add: concrete_defs)
  from close_twice [OF k k refl, of ?D 0 0]
  obtain dc1 dc2 where
    e1: "executeAll ?D [(0, ?R)] = Some dc1"
    and e2: "executeAll ?D [(0, ?R), (0, ?R)] = Some dc2"
    and s: "lastAccessedFile dc2 = lastAccessedFile dc1"
       "firstUnseenByte dc2 = firstUnseenByte dc1"
    and c: "Timestamp ?R \<le> busyUntil dc1 \<longrightarrow> writeBackCache dc2 = writeBackCache dc1"
    and f: "inDurationRange (max (busyUntil dc1) (Timestamp ?R) +
        sint (MetadataOpTime (deviceConfig ?D)) - Timestamp ?R) \<longrightarrow>
        busyUntil dc2 = max (busyUntil dc1) (Timestamp ?R) +
          sint (MetadataOpTime (deviceConfig ?D))"
    by blast
  have "map_option busyUntil (executeAll ?D [(0, ?R)]) = Some 1000000"
    by (simp add: eval_defs concrete_defs)
  then have b1: "busyUntil dc1 = 1000000"
    by (simp only: e1 option.map option.inject)
  have t: "Timestamp ?R \<le> busyUntil dc1"
    by (simp add: b1 ts)
  have r: "inDurationRange (max (busyUntil dc1) (Timestamp ?R) +
        sint (MetadataOpTime (deviceConfig ?D)) - Timestamp ?R)"
    by (simp add: b1 ts m inDurationRange_def)
  have b2: "busyUntil dc2 = 2000000"
    using f r by (simp add: b1 ts m)
  have p: "0 < sint (MetadataOpTime (deviceConfig ?D))"
    by (simp add: m)
  have lt: "busyUntil dc1 < busyUntil dc2"
    by (simp add: b1 b2)
  show ?thesis
    using k p e1 e2 s c t r b1 b2 lt by blast
qed

subsection \<open>Requests of a kind without a case of its own\<close>

text \<open>
  C6, as stated, fails: for an OPEN request, which has no case in \<open>computeTime\<close> and
  \<open>execute\<close>, the delay is not zero when the device is busy, and when the request comes
  after \<open>busyUntil\<close> the device state changes: \<open>busyUntil\<close> moves to the timestamp and
  the spare time is spent writing back the cache.
\<close>

theorem unknown_kind_counterexample:
  "\<not> handledKind (Type (request OpenRequest 3 ''/a'' 0 0)) \<and>
   computeTime (deviceAt scenarioConfig ''/a'' 4096 10 [(''/c'', 1000)])
     (request OpenRequest 3 ''/a'' 0 0) = Some 7 \<and>
   busyUntil (deviceAt scenarioConfig ''/a'' 4096 10 [(''/c'', 1000)]) = 10 \<and>
   map_option busyUntil
     (execute (deviceAt scenarioConfig ''/a'' 4096 10 [(''/c'', 1000)]) 0
        (request OpenRequest 1000000010 ''/a'' 0 0)) = Some 1000000010 \<and>
   map_option writeBackCache
     (execute (deviceAt scenarioConfig ''/a'' 4096 10 [(''/c'', 1000)]) 0
        (request OpenRequest 1000000010 ''/a'' 0 0)) =
     Some (Some \<lparr>cacheConfig = scenarioConfig, dirtyBytes = [(''/c'', 0)]\<rparr>)"
proof -
  let ?D = "deviceAt scenarioConfig ''/a'' 4096 10 [(''/c'', 1000)]"
  have k: "\<not> handledKind (Type (request OpenRequest 3 ''/a'' 0 0))"
    by (simp add: handledKind_def concrete_defs)
  have c: "computeTime ?D (request OpenRequest 3 ''/a'' 0 0) = Some 7"
    by (simp add: computeTime_saturate requestDuration_def saturate_def concrete_defs)
  have b: "busyUntil ?D = 10"
    by (simp add: concrete_defs)
  have e: "map_option busyUntil (execute ?D 0 (request OpenRequest 1000000010 ''/a'' 0 0)) =
      Some 1000000010"
    by (simp add: eval_defs concrete_defs)
  have w: "map_option writeBackCache
      (execute ?D 0 (request OpenRequest 1000000010 ''/a'' 0 0)) =
      Some (Some \<lparr>cacheConfig = scenarioConfig, dirtyBytes = [(''/c'', 0)]\<rparr>)"
    by (simp add: eval_defs concrete_defs)
  show ?thesis
    using k c b e w by (intro conjI)
qed

text \<open>
  C6, amended. For a request of a kind without a case of its own the request duration is
  zero: the delay is \<open>max(busyUntil, req.timestamp) - req.timestamp\<close>, capped at the
  greatest \<^verbatim>\<open>time.Duration\<close>, \<open>2\<^sup>6\<^sup>3 - 1\<close> ns; it is zero when
  \<open>busyUntil \<le> req.timestamp\<close>. \<open>execute\<close> leaves the sequentiality state and the
  configuration unchanged, sets \<open>busyUntil\<close> to the timestamp plus that delay, which is
  \<open>max(busyUntil, req.timestamp)\<close> when the device is busy at most \<open>2\<^sup>6\<^sup>3 - 1\<close> ns beyond
  the timestamp, and writes the cache back for the spare time. When the timestamp is not
  after \<open>busyUntil\<close> the cache is unchanged, and \<open>busyUntil\<close> too if the device is busy at
  most \<open>2\<^sup>6\<^sup>3 - 1\<close> ns beyond the timestamp.
\<close>

theorem unknown_kind_effect:
  assumes "\<not> handledKind (Type req)"
  shows "computeTime dc req =
      Some (saturate (max (busyUntil dc) (Timestamp req) - Timestamp req)) \<and>
    (busyUntil dc - Timestamp req \<le> 2 ^ 63 - 1 \<longrightarrow>
       map_option sint (computeTime dc req) =
         Some (max (busyUntil dc) (Timestamp req) - Timestamp req)) \<and>
    (busyUntil dc \<le> Timestamp req \<longrightarrow> computeTime dc req = Some 0) \<and>
    (\<exists>dc'. execute dc now req = Some dc' \<and>
       busyUntil dc' = Timestamp req +
         sint (saturate (max (busyUntil dc) (Timestamp req) - Timestamp req)) \<and>
       (busyUntil dc - Timestamp req \<le> 2 ^ 63 - 1 \<longrightarrow>
          busyUntil dc' = max (busyUntil dc) (Timestamp req)) \<and>
       lastAccessedFile dc' = lastAccessedFile dc \<and>
       firstUnseenByte dc' = firstUnseenByte dc \<and>
       deviceConfig dc' = deviceConfig dc \<and>
       writeBackCache dc' = spareCache dc req \<and>
       (Timestamp req \<le> busyUntil dc \<longrightarrow> writeBackCache dc' = writeBackCache dc) \<and>
       (Timestamp req \<le> busyUntil dc \<and> busyUntil dc - Timestamp req \<le> 2 ^ 63 - 1 \<longrightarrow>
          busyUntil dc' = busyUntil dc))"
proof -
  have "requestDuration dc req = Some 0"
    using assms by (rule requestDuration_unknown)
  then have t: "computeTime dc req =
      Some (saturate (max (busyUntil dc) (Timestamp req) - Timestamp req))"
    by (simp add: computeTime_saturate)
  have r: "busyUntil dc - Timestamp req \<le> 2 ^ 63 - 1 \<longrightarrow>
      sint (saturate (max (busyUntil dc) (Timestamp req) - Timestamp req)) =
        max (busyUntil dc) (Timestamp req) - Timestamp req"
    by (simp add: sint_saturate_range inDurationRange_def max_def)
  have z: "busyUntil dc \<le> Timestamp req \<longrightarrow> computeTime dc req = Some 0"
    by (simp add: t max_def saturate_0)
  define dc' where "dc' = (prepared dc now req)\<lparr>busyUntil :=
      Timestamp req + sint (saturate (max (busyUntil dc) (Timestamp req) - Timestamp req))\<rparr>"
  have e: "execute dc now req = Some dc'"
    unfolding dc'_def using assms by (rule execute_unknown)
  have m: "busyUntil dc - Timestamp req \<le> 2 ^ 63 - 1 \<longrightarrow>
      map_option sint (computeTime dc req) =
        Some (max (busyUntil dc) (Timestamp req) - Timestamp req)"
    using r by (simp add: t)
  have b: "busyUntil dc' = Timestamp req +
      sint (saturate (max (busyUntil dc) (Timestamp req) - Timestamp req))"
    by (simp add: dc'_def)
  have b1: "busyUntil dc - Timestamp req \<le> 2 ^ 63 - 1 \<longrightarrow>
      busyUntil dc' = max (busyUntil dc) (Timestamp req)"
    using r by (simp add: b)
  have b2: "Timestamp req \<le> busyUntil dc \<and> busyUntil dc - Timestamp req \<le> 2 ^ 63 - 1 \<longrightarrow>
      busyUntil dc' = busyUntil dc"
    using b1 by (simp add: max_def)
  have f: "lastAccessedFile dc' = lastAccessedFile dc" "firstUnseenByte dc' = firstUnseenByte dc"
    "deviceConfig dc' = deviceConfig dc" "writeBackCache dc' = spareCache dc req"
    by (simp_all add: dc'_def prepared_fields)
  have w: "Timestamp req \<le> busyUntil dc \<longrightarrow> writeBackCache dc' = writeBackCache dc"
    by (simp add: f spareCache_busy)
  show ?thesis
    using t m z e b b1 b2 f w by blast
qed

theorem unknown_kind_effect_witness:
  "\<not> handledKind (Type (request 7 3 ''/a'' 0 0)) \<and>
   Timestamp (request 7 3 ''/a'' 0 0)
     \<le> busyUntil (deviceAt scenarioConfig ''/a'' 4096 10 [(''/c'', 1000)]) \<and>
   busyUntil (deviceAt scenarioConfig ''/a'' 4096 10 [(''/c'', 1000)]) -
     Timestamp (request 7 3 ''/a'' 0 0) \<le> 2 ^ 63 - 1 \<and>
   computeTime (deviceAt scenarioConfig ''/a'' 4096 10 [(''/c'', 1000)])
     (request 7 3 ''/a'' 0 0) = Some 7 \<and>
   (\<exists>dc'. execute (deviceAt scenarioConfig ''/a'' 4096 10 [(''/c'', 1000)]) 0
            (request 7 3 ''/a'' 0 0) = Some dc' \<and>
      busyUntil dc' = 10 \<and> lastAccessedFile dc' = ''/a'' \<and> firstUnseenByte dc' = 4096 \<and>
      writeBackCache dc' =
        Some \<lparr>cacheConfig = scenarioConfig, dirtyBytes = [(''/c'', 1000)]\<rparr>) \<and>
   \<not> handledKind (Type (request OpenRequest 12 ''/a'' 0 0)) \<and>
   busyUntil (deviceAt scenarioConfig ''/a'' 4096 10 [(''/c'', 1000)])
     \<le> Timestamp (request OpenRequest 12 ''/a'' 0 0) \<and>
   computeTime (deviceAt scenarioConfig ''/a'' 4096 10 [(''/c'', 1000)])
     (request OpenRequest 12 ''/a'' 0 0) = Some 0"
proof -
  let ?D = "deviceAt scenarioConfig ''/a'' 4096 10 [(''/c'', 1000)]"
  let ?R = "request 7 3 ''/a'' 0 0"
  let ?O = "request OpenRequest 12 ''/a'' 0 0"
  have k: "\<not> handledKind (Type ?R)"
    and k': "\<not> handledKind (Type ?O)"
    by (simp_all add: handledKind_def concrete_defs)
  have f: "busyUntil ?D = 10" "lastAccessedFile ?D = ''/a''" "firstUnseenByte ?D = 4096"
    "writeBackCache ?D = Some \<lparr>cacheConfig = scenarioConfig, dirtyBytes = [(''/c'', 1000)]\<rparr>"
    "Timestamp ?R = 3" "Timestamp ?O = 12"
    by (simp_all add: concrete_defs)
  have b: "Timestamp ?R \<le> busyUntil ?D"
    and r: "busyUntil ?D - Timestamp ?R \<le> 2 ^ 63 - 1"
    and b': "busyUntil ?D \<le> Timestamp ?O"
    by (simp_all add: f)
  from unknown_kind_effect [OF k, of ?D 0] b r
  obtain dc' where c: "computeTime ?D ?R =
        Some (saturate (max (busyUntil ?D) (Timestamp ?R) - Timestamp ?R))"
    and e: "execute ?D 0 ?R = Some dc'"
    and s: "lastAccessedFile dc' = lastAccessedFile ?D" "firstUnseenByte dc' = firstUnseenByte ?D"
    and w: "writeBackCache dc' = writeBackCache ?D"
    and u: "busyUntil dc' = busyUntil ?D"
    by blast
  have c7: "computeTime ?D ?R = Some 7"
    unfolding c by (simp add: f saturate_def)
  from unknown_kind_effect [OF k', of ?D 0] b'
  have c0: "computeTime ?D ?O = Some 0"
    by blast
  have "\<exists>dc'. execute ?D 0 ?R = Some dc' \<and>
      busyUntil dc' = 10 \<and> lastAccessedFile dc' = ''/a'' \<and> firstUnseenByte dc' = 4096 \<and>
      writeBackCache dc' =
        Some \<lparr>cacheConfig = scenarioConfig, dirtyBytes = [(''/c'', 1000)]\<rparr>"
    using e s w u by (simp add: f)
  then show ?thesis
    using k k' b r b' c7 c0 by (intro conjI)
qed

subsection \<open>Writes and the write-back cache\<close>

text \<open>
  C10, as stated, fails at the end of the range of \<^verbatim>\<open>time.Duration\<close>. With a seek time of
  \<open>2\<^sup>6\<^sup>3 - 1\<close> nanoseconds and the \<open>simulate\<close> strategy, a WRITE of 512000 bytes to a
  file other than the last one accessed has \<open>seek + size / writeBytesPerSecond\<close> equal to
  9223372036905975807 nanoseconds, but the sum the source computes wraps: the request
  duration and the delay of \<open>computeTime\<close> are both -9223372036803575809 nanoseconds.
\<close>

theorem write_charge_wraps_counterexample:
  "Type (request WriteRequest 0 ''/c'' 0 512000) = WriteRequest \<and>
   writeBackCache (deviceAt (scenarioConfig\<lparr>SeekTime := 9223372036854775807\<rparr>) '''' 0 0 []) =
     Some \<lparr>cacheConfig = scenarioConfig\<lparr>SeekTime := 9223372036854775807\<rparr>, dirtyBytes = []\<rparr> \<and>
   WriteStrategy (deviceConfig
     (deviceAt (scenarioConfig\<lparr>SeekTime := 9223372036854775807\<rparr>) '''' 0 0 [])) =
     SimulateWrite \<and>
   spec_seekTime (deviceAt (scenarioConfig\<lparr>SeekTime := 9223372036854775807\<rparr>) '''' 0 0 [])
       (request WriteRequest 0 ''/c'' 0 512000) +
     spec_transferTime 512000 10000000 = 9223372036905975807 \<and>
   map_option sint
     (requestDuration (deviceAt (scenarioConfig\<lparr>SeekTime := 9223372036854775807\<rparr>) '''' 0 0 [])
        (request WriteRequest 0 ''/c'' 0 512000)) = Some (- 9223372036803575809) \<and>
   map_option sint
     (computeTime (deviceAt (scenarioConfig\<lparr>SeekTime := 9223372036854775807\<rparr>) '''' 0 0 [])
        (request WriteRequest 0 ''/c'' 0 512000)) = Some (- 9223372036803575809)"
proof -
  let ?D = "deviceAt (scenarioConfig\<lparr>SeekTime := 9223372036854775807\<rparr>) '''' 0 0 []"
  let ?W = "request WriteRequest 0 ''/c'' 0 512000"
  have k: "Type ?W = WriteRequest"
    and c: "writeBackCache ?D =
      Some \<lparr>cacheConfig = scenarioConfig\<lparr>SeekTime := 9223372036854775807\<rparr>, dirtyBytes = []\<rparr>"
    and s: "WriteStrategy (deviceConfig ?D) = SimulateWrite"
    by (simp_all add: concrete_defs)
  have m: "spec_seekTime ?D ?W + spec_transferTime 512000 10000000 = 9223372036905975807"
    by (simp add: spec_seekTime_def spec_transferTime_def roundHalfEven_def concrete_defs)
  have r: "requestDuration ?D ?W = Some (word_of_int (- 9223372036803575809))"
    by (simp add: requestDuration_def computeSeekTime_def WriteTime_def
        computeTimeFromThroughput_def roundHalfEven_def concrete_defs)
  have r': "map_option sint (requestDuration ?D ?W) = Some (- 9223372036803575809)"
    by (simp add: r)
  have b: "busyUntil ?D = 0" "Timestamp ?W = 0"
    by (simp_all add: concrete_defs)
  have sr: "sint (word_of_int (- 9223372036803575809) :: Duration) = - 9223372036803575809"
    by (simp add: sint_word_of_int_range inDurationRange_def)
  have t: "map_option sint (computeTime ?D ?W) = Some (- 9223372036803575809)"
    unfolding computeTime_saturate r by (simp only: b sr option.map) (simp add: sint_saturate)
  show ?thesis
    using k c s m r' t by (intro conjI)
qed

text \<open>
  C10, amended. When the device has a write-back cache, \<open>execute\<close> of a WRITE adds
  \<open>req.size\<close> to the dirty bytes of \<open>req.path\<close>, on top of what the spare-time write-back
  left, under either write strategy. Under \<open>simulate\<close> the same write is charged by
  \<open>computeTime\<close> the sum of the seek time and the write time of \<open>req.size\<close> as the source
  computes it in \<^verbatim>\<open>time.Duration\<close>, and an FSYNC of that path on the resulting device is
  charged one seek plus the write time of dirty bytes that include \<open>req.size\<close> again. These
  sums are \<open>seek + size / writeBytesPerSecond\<close> over the integers when that lies in the
  range of \<^verbatim>\<open>time.Duration\<close>, and the write time of the dirty bytes is then at least that
  of \<open>req.size\<close>.
\<close>

theorem write_adds_dirty_bytes:
  assumes "Type req = WriteRequest" and "writeBackCache dc = Some c"
  shows "\<exists>dc' c0 c'.
     execute dc now req = Some dc' \<and>
     spareCache dc req = Some c0 \<and>
     (Timestamp req \<le> busyUntil dc \<longrightarrow> c0 = c) \<and>
     writeBackCache dc' = Some c' \<and>
     c' = cacheWrite c0 (Path req) (Size req) \<and>
     getUnwrittenBytes c' (Path req) = getUnwrittenBytes c0 (Path req) + Size req \<and>
     (WriteStrategy (deviceConfig dc) = SimulateWrite \<longrightarrow>
        requestDuration dc req =
          Some (computeSeekTime dc req + WriteTime (deviceConfig dc) (Size req)) \<and>
        computeTime dc req =
          Some (Sub (Add (latestTime (busyUntil dc) (Timestamp req))
                       (computeSeekTime dc req + WriteTime (deviceConfig dc) (Size req)))
                  (Timestamp req)) \<and>
        (inDurationRange (spec_seekTime dc req +
           spec_transferTime (Size req) (WriteBytesPerSecond (deviceConfig dc))) \<and>
         inDurationRange
           (spec_transferTime (Size req) (WriteBytesPerSecond (deviceConfig dc))) \<longrightarrow>
           sint (computeSeekTime dc req + WriteTime (deviceConfig dc) (Size req)) =
             spec_seekTime dc req +
             spec_transferTime (Size req) (WriteBytesPerSecond (deviceConfig dc)))) \<and>
     (\<forall>f. Type f = FsyncRequest \<and> Path f = Path req \<and>
          FsyncStrategy (deviceConfig dc) = WriteBackCachedFsync \<longrightarrow>
        requestDuration dc' f =
          Some (SeekTime (deviceConfig dc) +
                WriteTime (deviceConfig dc)
                  (getUnwrittenBytes c0 (Path req) + Size req)) \<and>
        computeTime dc' f =
          Some (Sub (Add (latestTime (busyUntil dc') (Timestamp f))
                       (SeekTime (deviceConfig dc) +
                        WriteTime (deviceConfig dc)
                          (getUnwrittenBytes c0 (Path req) + Size req)))
                  (Timestamp f)) \<and>
        (inDurationRange (sint (SeekTime (deviceConfig dc)) +
           spec_transferTime (getUnwrittenBytes c0 (Path req) + Size req)
             (WriteBytesPerSecond (deviceConfig dc))) \<and>
         inDurationRange
           (spec_transferTime (getUnwrittenBytes c0 (Path req) + Size req)
             (WriteBytesPerSecond (deviceConfig dc))) \<longrightarrow>
           sint (SeekTime (deviceConfig dc) +
                 WriteTime (deviceConfig dc)
                   (getUnwrittenBytes c0 (Path req) + Size req)) =
             sint (SeekTime (deviceConfig dc)) +
             spec_transferTime (getUnwrittenBytes c0 (Path req) + Size req)
               (WriteBytesPerSecond (deviceConfig dc)) \<and>
           spec_transferTime (Size req) (WriteBytesPerSecond (deviceConfig dc)) \<le>
             spec_transferTime (getUnwrittenBytes c0 (Path req) + Size req)
               (WriteBytesPerSecond (deviceConfig dc))))"
proof -
  from execute_write [OF assms(1), of dc now] obtain dc' where
    e: "execute dc now req = Some dc'"
    and g: "deviceConfig dc' = deviceConfig dc"
    and w: "writeBackCache dc' =
       map_option (\<lambda>c. cacheWrite c (Path req) (Size req)) (spareCache dc req)"
    by blast
  obtain c0 where c0: "spareCache dc req = Some c0"
    using assms(2) by (simp add: spareCache_def)
  define c' where "c' = cacheWrite c0 (Path req) (Size req)"
  have idle: "Timestamp req \<le> busyUntil dc \<longrightarrow> c0 = c"
    using c0 assms(2) by (auto simp: spareCache_busy)
  have w': "writeBackCache dc' = Some c'"
    using w c0 by (simp add: c'_def)
  have u: "getUnwrittenBytes c' (Path req) = getUnwrittenBytes c0 (Path req) + Size req"
    by (simp add: c'_def getUnwrittenBytes_cacheWrite)
  have sim: "WriteStrategy (deviceConfig dc) = SimulateWrite \<longrightarrow>
        requestDuration dc req =
          Some (computeSeekTime dc req + WriteTime (deviceConfig dc) (Size req)) \<and>
        computeTime dc req =
          Some (Sub (Add (latestTime (busyUntil dc) (Timestamp req))
                       (computeSeekTime dc req + WriteTime (deviceConfig dc) (Size req)))
                  (Timestamp req)) \<and>
        (inDurationRange (spec_seekTime dc req +
           spec_transferTime (Size req) (WriteBytesPerSecond (deviceConfig dc))) \<and>
         inDurationRange
           (spec_transferTime (Size req) (WriteBytesPerSecond (deviceConfig dc))) \<longrightarrow>
           sint (computeSeekTime dc req + WriteTime (deviceConfig dc) (Size req)) =
             spec_seekTime dc req +
             spec_transferTime (Size req) (WriteBytesPerSecond (deviceConfig dc)))"
    using assms(1)
    by (simp add: computeTime_def requestDuration_def RequestType_defs WriteTime_def
        sint_seek_plus_transfer)
  have fs: "requestDuration dc' f =
          Some (SeekTime (deviceConfig dc) +
                WriteTime (deviceConfig dc)
                  (getUnwrittenBytes c0 (Path req) + Size req)) \<and>
        computeTime dc' f =
          Some (Sub (Add (latestTime (busyUntil dc') (Timestamp f))
                       (SeekTime (deviceConfig dc) +
                        WriteTime (deviceConfig dc)
                          (getUnwrittenBytes c0 (Path req) + Size req)))
                  (Timestamp f)) \<and>
        (inDurationRange (sint (SeekTime (deviceConfig dc)) +
           spec_transferTime (getUnwrittenBytes c0 (Path req) + Size req)
             (WriteBytesPerSecond (deviceConfig dc))) \<and>
         inDurationRange
           (spec_transferTime (getUnwrittenBytes c0 (Path req) + Size req)
             (WriteBytesPerSecond (deviceConfig dc))) \<longrightarrow>
           sint (SeekTime (deviceConfig dc) +
                 WriteTime (deviceConfig dc)
                   (getUnwrittenBytes c0 (Path req) + Size req)) =
             sint (SeekTime (deviceConfig dc)) +
             spec_transferTime (getUnwrittenBytes c0 (Path req) + Size req)
               (WriteBytesPerSecond (deviceConfig dc)) \<and>
           spec_transferTime (Size req) (WriteBytesPerSecond (deviceConfig dc)) \<le>
             spec_transferTime (getUnwrittenBytes c0 (Path req) + Size req)
               (WriteBytesPerSecond (deviceConfig dc)))"
    if f: "Type f = FsyncRequest \<and> Path f = Path req \<and>
          FsyncStrategy (deviceConfig dc) = WriteBackCachedFsync" for f
  proof -
    have rd: "requestDuration dc' f =
          Some (SeekTime (deviceConfig dc) +
                WriteTime (deviceConfig dc)
                  (getUnwrittenBytes c0 (Path req) + Size req))"
      using f by (simp add: requestDuration_def RequestType_defs g w' u)
    have ct: "computeTime dc' f =
          Some (Sub (Add (latestTime (busyUntil dc') (Timestamp f))
                       (SeekTime (deviceConfig dc) +
                        WriteTime (deviceConfig dc)
                          (getUnwrittenBytes c0 (Path req) + Size req)))
                  (Timestamp f))"
      by (simp add: computeTime_def rd)
    have mono: "spec_transferTime (Size req) (WriteBytesPerSecond (deviceConfig dc)) \<le>
        spec_transferTime (getUnwrittenBytes c0 (Path req) + Size req)
          (WriteBytesPerSecond (deviceConfig dc))"
      by (rule spec_transferTime_mono) simp
    have fit: "sint (SeekTime (deviceConfig dc) +
                 WriteTime (deviceConfig dc)
                   (getUnwrittenBytes c0 (Path req) + Size req)) =
             sint (SeekTime (deviceConfig dc)) +
             spec_transferTime (getUnwrittenBytes c0 (Path req) + Size req)
               (WriteBytesPerSecond (deviceConfig dc))"
      if "inDurationRange (sint (SeekTime (deviceConfig dc)) +
           spec_transferTime (getUnwrittenBytes c0 (Path req) + Size req)
             (WriteBytesPerSecond (deviceConfig dc)))"
        and "inDurationRange
           (spec_transferTime (getUnwrittenBytes c0 (Path req) + Size req)
             (WriteBytesPerSecond (deviceConfig dc)))"
      using that sint_add_range [of "SeekTime (deviceConfig dc)"
          "WriteTime (deviceConfig dc) (getUnwrittenBytes c0 (Path req) + Size req)"]
      by (simp add: WriteTime_def sint_computeTimeFromThroughput)
    show ?thesis
      using rd ct mono fit by blast
  qed
  show ?thesis
    using e c0 idle w' c'_def u sim fs by blast
qed

theorem write_adds_dirty_bytes_witness:
  "Type (request WriteRequest 0 ''/c'' 0 512000) = WriteRequest \<and>
   writeBackCache (deviceAt scenarioConfig '''' 0 0 []) =
     Some \<lparr>cacheConfig = scenarioConfig, dirtyBytes = []\<rparr> \<and>
   Timestamp (request WriteRequest 0 ''/c'' 0 512000)
     \<le> busyUntil (deviceAt scenarioConfig '''' 0 0 []) \<and>
   WriteStrategy (deviceConfig (deviceAt scenarioConfig '''' 0 0 [])) = SimulateWrite \<and>
   inDurationRange (spec_seekTime (deviceAt scenarioConfig '''' 0 0 [])
       (request WriteRequest 0 ''/c'' 0 512000) +
     spec_transferTime (Size (request WriteRequest 0 ''/c'' 0 512000))
       (WriteBytesPerSecond (deviceConfig (deviceAt scenarioConfig '''' 0 0 [])))) \<and>
   inDurationRange (spec_transferTime (Size (request WriteRequest 0 ''/c'' 0 512000))
       (WriteBytesPerSecond (deviceConfig (deviceAt scenarioConfig '''' 0 0 [])))) \<and>
   Type (request FsyncRequest 0 ''/c'' 0 0) = FsyncRequest \<and>
   Path (request FsyncRequest 0 ''/c'' 0 0) = Path (request WriteRequest 0 ''/c'' 0 512000) \<and>
   FsyncStrategy (deviceConfig (deviceAt scenarioConfig '''' 0 0 [])) = WriteBackCachedFsync \<and>
   requestDuration (deviceAt scenarioConfig '''' 0 0 [])
     (request WriteRequest 0 ''/c'' 0 512000) = Some 56200000 \<and>
   computeTime (deviceAt scenarioConfig '''' 0 0 [])
     (request WriteRequest 0 ''/c'' 0 512000) = Some 56200000 \<and>
   (\<exists>dc' c'. execute (deviceAt scenarioConfig '''' 0 0 []) 0
              (request WriteRequest 0 ''/c'' 0 512000) = Some dc' \<and>
      writeBackCache dc' = Some c' \<and>
      getUnwrittenBytes c' ''/c'' = 512000 \<and>
      requestDuration dc' (request FsyncRequest 0 ''/c'' 0 0) = Some 56200000)"
proof -
  let ?D = "deviceAt scenarioConfig '''' 0 0 []"
  let ?W = "request WriteRequest 0 ''/c'' 0 512000"
  let ?F = "request FsyncRequest 0 ''/c'' 0 0"
  let ?C = "\<lparr>cacheConfig = scenarioConfig, dirtyBytes = []\<rparr>"
  have k: "Type ?W = WriteRequest"
    and c: "writeBackCache ?D = Some ?C"
    and t: "Timestamp ?W \<le> busyUntil ?D"
    and s: "WriteStrategy (deviceConfig ?D) = SimulateWrite"
    and kf: "Type ?F = FsyncRequest"
    and pf: "Path ?F = Path ?W"
    and y: "FsyncStrategy (deviceConfig ?D) = WriteBackCachedFsync"
    by (simp_all add: concrete_defs)
  have v: "spec_seekTime ?D ?W = 5000000"
    "spec_transferTime (Size ?W) (WriteBytesPerSecond (deviceConfig ?D)) = 51200000"
    "spec_transferTime 512000 (WriteBytesPerSecond (deviceConfig ?D)) = 51200000"
    "Path ?W = ''/c''" "Size ?W = 512000" "getUnwrittenBytes ?C ''/c'' = 0"
    "SeekTime (deviceConfig ?D) = 5000000"
    "WriteTime (deviceConfig ?D) 512000 = 51200000"
    "computeSeekTime ?D ?W = 5000000"
    "busyUntil ?D = 0" "Timestamp ?W = 0"
    by (simp_all add: spec_seekTime_def spec_transferTime_def roundHalfEven_def
        getUnwrittenBytes_def WriteTime_def computeTimeFromThroughput_def
        computeSeekTime_def concrete_defs)
  have r: "inDurationRange (spec_seekTime ?D ?W +
      spec_transferTime (Size ?W) (WriteBytesPerSecond (deviceConfig ?D)))"
    "inDurationRange (spec_transferTime (Size ?W) (WriteBytesPerSecond (deviceConfig ?D)))"
    by (simp_all add: v inDurationRange_def)
  from write_adds_dirty_bytes [OF k c, of 0] t s kf pf y
  obtain dc' c0 c' where
    e: "execute ?D 0 ?W = Some dc'"
    and c0: "c0 = ?C"
    and w: "writeBackCache dc' = Some c'"
    and u: "getUnwrittenBytes c' (Path ?W) = getUnwrittenBytes c0 (Path ?W) + Size ?W"
    and rw: "requestDuration ?D ?W =
       Some (computeSeekTime ?D ?W + WriteTime (deviceConfig ?D) (Size ?W))"
    and m: "computeTime ?D ?W =
       Some (Sub (Add (latestTime (busyUntil ?D) (Timestamp ?W))
                    (computeSeekTime ?D ?W + WriteTime (deviceConfig ?D) (Size ?W)))
               (Timestamp ?W))"
    and f: "requestDuration dc' ?F =
       Some (SeekTime (deviceConfig ?D) +
             WriteTime (deviceConfig ?D) (getUnwrittenBytes c0 (Path ?W) + Size ?W))"
    by blast
  have u': "getUnwrittenBytes c' ''/c'' = 512000"
    using u by (simp add: c0 v)
  have rw': "requestDuration ?D ?W = Some 56200000"
    unfolding rw by (simp add: v)
  have m': "computeTime ?D ?W = Some 56200000"
    unfolding m by (simp add: v Sub_saturate Add_def latestTime_max saturate_def)
  have f': "requestDuration dc' ?F = Some 56200000"
    unfolding f by (simp add: c0 v)
  have "\<exists>dc' c'. execute ?D 0 ?W = Some dc' \<and> writeBackCache dc' = Some c' \<and>
      getUnwrittenBytes c' ''/c'' = 512000 \<and> requestDuration dc' ?F = Some 56200000"
    using e w u' f' by blast
  then show ?thesis
    using k c t s r kf pf y rw' m' by (intro conjI)
qed

end
